theory Spec2Isabelle
  imports Main "HOL-Library.AList" "HOL-Library.Sublist"
begin

section \<open>The j2 command-line template processor: folder templates\<close>

text \<open>
  This theory embeds the rendering functions of \<^verbatim>\<open>src/j2.py\<close>:
  \<^verbatim>\<open>DEBUG\<close>, \<^verbatim>\<open>render_file_name\<close>, \<^verbatim>\<open>render_file_template\<close> and the recursive
  \<^verbatim>\<open>render_folder_template\<close>. The Jinja2 engine and the operating system are not part
  of the repository: the engine is a parameter of every function, and the file system is
  an explicit store passed through the calls.

  Conventions of the model.
  \<^item> The host is POSIX for path syntax (\<^verbatim>\<open>os.sep\<close> is a slash, \<^verbatim>\<open>os.path\<close> is
    \<^verbatim>\<open>posixpath\<close>); the line separator \<^verbatim>\<open>os.linesep\<close> stays a parameter.
  \<^item> The interpreter line of the script and \<^verbatim>\<open>setup.py\<close> ask for Python 3. Two of
    the lines modelled here behave differently on Python 2, and the configuration says
    which interpreter runs (\<open>python3\<close>), so that both readings can be stated.
    \<^item> \<^verbatim>\<open>os.mkdir\<close> raises \<^verbatim>\<open>OSError\<close>. On Python 3 \<^verbatim>\<open>IOError\<close> is the same
      class, so the handler at line 555 catches it; on Python 2 it is not caught.
    \<^item> The destination files are opened with mode \<^verbatim>\<open>'wb'\<close> and line 537 hands
      \<^verbatim>\<open>write\<close> a text (\<^verbatim>\<open>template.render(...) + os.linesep\<close>). Python 2 writes
      it; Python 3 raises \<^verbatim>\<open>TypeError\<close>, which no handler catches.
      \<^verbatim>\<open>sys.stdout\<close> takes the text on both.
  \<^item> Apart from that, text and bytes are identified: a file holds the character sequence
    written to it; encodings are not modelled.
  \<^item> \<^verbatim>\<open>exit(1)\<close> ends the run: the outcome \<open>Exit\<close> carries the world at that moment.
    An exception that no handler catches ends it too: the outcome \<open>Raised\<close>.
\<close>

subsection \<open>Strings\<close>

definition NL :: string where
  "NL = [CHR 0x0A]"

definition APOS :: string where
  "APOS = [CHR 0x27]"

definition digit_char :: "nat \<Rightarrow> char" where
  "digit_char d = char_of (48 + d)"

fun digits :: "nat \<Rightarrow> string" where
  "digits n = (if n < 10 then [digit_char n] else digits (n div 10) @ [digit_char (n mod 10)])"

declare digits.simps [simp del]

definition str :: "int \<Rightarrow> string" where
  \<comment> \<open>Python's \<^verbatim>\<open>str\<close> on an integer.\<close>
  "str i = (if i < 0 then CHR ''-'' # digits (nat (- i)) else digits (nat i))"

fun join :: "string \<Rightarrow> string list \<Rightarrow> string" where
  \<comment> \<open>\<^verbatim>\<open>sep.join(xs)\<close>\<close>
  "join s [] = []"
| "join s [x] = x"
| "join s (x # y # ys) = x @ s @ join s (y # ys)"

subsection \<open>Paths (posixpath)\<close>

definition os_sep :: string where
  "os_sep = ''/''"

definition os_pathsep :: string where
  "os_pathsep = '':''"

definition is_sep :: "char \<Rightarrow> bool" where
  "is_sep c = (c = CHR ''/'')"

definition os_path_basename :: "string \<Rightarrow> string" where
  \<comment> \<open>\<^verbatim>\<open>i = p.rfind('/') + 1; return p[i:]\<close>\<close>
  "os_path_basename p = rev (takeWhile (\<lambda>c. \<not> is_sep c) (rev p))"

definition os_path_dirname :: "string \<Rightarrow> string" where
  \<comment> \<open>\<^verbatim>\<open>head = p[:i]; if head and head != '/'*len(head): head = head.rstrip('/')\<close>\<close>
  "os_path_dirname p =
     (let head = rev (dropWhile (\<lambda>c. \<not> is_sep c) (rev p))
      in if head \<noteq> [] \<and> \<not> list_all is_sep head
         then rev (dropWhile is_sep (rev head)) else head)"

subsection \<open>The file system\<close>

text \<open>
  The store maps a path, compared as an exact string (no normalisation of repeated
  slashes or dot segments), to a node. It is an association list: the order of its keys
  is the order in which \<^verbatim>\<open>os.listdir\<close> reports the entries of a directory.
\<close>

datatype node =
    File string bool   \<comment> \<open>content, writable\<close>
  | Dir bool           \<comment> \<open>writable\<close>

type_synonym filesystem = "(string \<times> node) list"

definition os_path_exists :: "filesystem \<Rightarrow> string \<Rightarrow> bool" where
  "os_path_exists fs p = (map_of fs p \<noteq> None)"

definition os_path_isdir :: "filesystem \<Rightarrow> string \<Rightarrow> bool" where
  "os_path_isdir fs p = (case map_of fs p of Some (Dir _) \<Rightarrow> True | _ \<Rightarrow> False)"

definition os_access_W_OK :: "filesystem \<Rightarrow> string \<Rightarrow> bool" where
  "os_access_W_OK fs p =
     (case map_of fs p of Some (Dir wr) \<Rightarrow> wr | Some (File _ wr) \<Rightarrow> wr | None \<Rightarrow> False)"

definition child_name :: "string \<Rightarrow> string \<Rightarrow> string option" where
  \<comment> \<open>the entry name \<open>n\<close> when the path is \<open>folder/n\<close> for a single segment \<open>n\<close>\<close>
  "child_name folder p =
     (let pre = folder @ os_sep; n = drop (length pre) p
      in if take (length pre) p = pre \<and> n \<noteq> [] \<and> \<not> list_ex is_sep n then Some n else None)"

definition os_listdir :: "filesystem \<Rightarrow> string \<Rightarrow> string list option" where
  \<comment> \<open>\<open>None\<close>: \<^verbatim>\<open>os.listdir\<close> raises (no such directory)\<close>
  "os_listdir fs folder =
     (case map_of fs folder of
        Some (Dir _) \<Rightarrow> Some (List.map_filter (child_name folder) (map fst fs))
      | _ \<Rightarrow> None)"

definition os_mkdir :: "filesystem \<Rightarrow> string \<Rightarrow> filesystem option" where
  \<comment> \<open>\<open>None\<close>: \<^verbatim>\<open>os.mkdir\<close> raises \<^verbatim>\<open>OSError\<close>\<close>
  "os_mkdir fs p =
     (case map_of fs p of
        Some _ \<Rightarrow> None
      | None \<Rightarrow>
          (case map_of fs (os_path_dirname p) of
             Some (Dir True) \<Rightarrow> Some (AList.update p (Dir True) fs)
           | _ \<Rightarrow> None))"

definition open_wb :: "filesystem \<Rightarrow> string \<Rightarrow> filesystem option" where
  \<comment> \<open>\<^verbatim>\<open>open(p, 'wb')\<close>: creates or truncates; \<open>None\<close>: it raises \<^verbatim>\<open>IOError\<close>\<close>
  "open_wb fs p =
     (case map_of fs p of
        Some (File _ wr) \<Rightarrow> if wr then Some (AList.update p (File [] True) fs) else None
      | Some (Dir _) \<Rightarrow> None
      | None \<Rightarrow>
          (if os_path_basename p = [] then None
           else case map_of fs (os_path_dirname p) of
             Some (Dir True) \<Rightarrow> Some (AList.update p (File [] True) fs)
           | _ \<Rightarrow> None))"

definition append_content :: "string \<Rightarrow> node \<Rightarrow> node" where
  "append_content s n = (case n of File c wr \<Rightarrow> File (c @ s) wr | Dir wr \<Rightarrow> Dir wr)"

subsection \<open>The engine, the configuration and the world\<close>

record environment =
  \<comment> \<open>\<^verbatim>\<open>Environment(loader=FileSystemLoader(searchpath, encoding), trim_blocks, newline_sequence)\<close>\<close>
  searchpath :: "string list"
  encoding :: string
  trim_blocks :: bool
  newline_sequence :: string

datatype pyval =
    PStr string
  | PList "string list"
  | PLoader "string list" string
  | PEnv environment
  | PFile string
  | PStdout

datatype render_result =
    Rendered string
  | TemplateNotFound string              \<comment> \<open>\<^verbatim>\<open>e.name\<close>\<close>
  | TemplateSyntaxError string int string  \<comment> \<open>\<^verbatim>\<open>e.filename\<close>, \<^verbatim>\<open>e.lineno\<close>, \<^verbatim>\<open>e.message\<close>\<close>

type_synonym engine =
  "environment \<Rightarrow> (string \<times> string) list \<Rightarrow> (string \<times> pyval) list \<Rightarrow> filesystem \<Rightarrow> string
     \<Rightarrow> render_result"

text \<open>
  An engine stands for \<^verbatim>\<open>env.get_template(name).render(env=os.environ)\<close>: from the
  environment, the \<^verbatim>\<open>j2\<close> dictionary, the names the function copies into the globals
  with \<^verbatim>\<open>env.globals.update(locals())\<close>, the file system it loads templates from and
  the template name, it gives the rendered text or one of the two exceptions the script
  handles.
\<close>

record config =
  python3 :: bool                 \<comment> \<open>the interpreter: Python 3, or else Python 2\<close>
  os_linesep :: string
  j2_linesep :: string
  j2_encoding :: string
  TEMPLATEPATH :: "string list"   \<comment> \<open>\<^verbatim>\<open>args.TEMPLATEPATH\<close>\<close>
  TRIM :: int                     \<comment> \<open>\<^verbatim>\<open>args.TRIM\<close>\<close>
  DEBUG_LEVEL :: int

record world =
  files :: filesystem
  stderr :: "string list"           \<comment> \<open>one element for each \<^verbatim>\<open>sys.stderr.write\<close>\<close>
  stdout :: "string list"
  j2 :: "(string \<times> string) list"    \<comment> \<open>the \<^verbatim>\<open>j2\<close> dictionary\<close>
  globals :: "(string \<times> pyval) list" \<comment> \<open>names added by \<^verbatim>\<open>env.globals.update(locals())\<close>\<close>

datatype exn =
    OSError string             \<comment> \<open>the path\<close>
  | TypeError string string    \<comment> \<open>the path of the binary file, the text handed to \<^verbatim>\<open>write\<close>\<close>

datatype 'a outcome =
    Returned 'a world
  | Exit world          \<comment> \<open>\<^verbatim>\<open>exit(1)\<close>\<close>
  | Raised exn world    \<comment> \<open>an exception no handler catches\<close>

datatype stream = Stdout | OpenFile string

definition stderr_write :: "string \<Rightarrow> world \<Rightarrow> world" where
  "stderr_write s w = w\<lparr>stderr := stderr w @ [s]\<rparr>"

definition stream_write :: "config \<Rightarrow> stream \<Rightarrow> string \<Rightarrow> world \<Rightarrow> unit outcome" where
  \<comment> \<open>\<^verbatim>\<open>output.write(s)\<close> for a text \<open>s\<close>\<close>
  "stream_write cfg out s w =
     (case out of
        Stdout \<Rightarrow> Returned () (w\<lparr>stdout := stdout w @ [s]\<rparr>)
      | OpenFile p \<Rightarrow>
          if python3 cfg then Raised (TypeError p s) w
          else Returned () (w\<lparr>files := AList.map_entry p (append_content s) (files w)\<rparr>))"

definition stream_val :: "stream \<Rightarrow> pyval" where
  "stream_val out = (case out of Stdout \<Rightarrow> PStdout | OpenFile p \<Rightarrow> PFile p)"

definition j2_item :: "(string \<times> string) list \<Rightarrow> string \<Rightarrow> string" where
  \<comment> \<open>\<^verbatim>\<open>j2[k]\<close>; the keys read are set at startup, before any render\<close>
  "j2_item d k = (case map_of d k of Some v \<Rightarrow> v | None \<Rightarrow> [])"

definition update_all :: "('k \<times> 'v) list \<Rightarrow> ('k \<times> 'v) list \<Rightarrow> ('k \<times> 'v) list" where
  \<comment> \<open>\<^verbatim>\<open>d.update(new)\<close>\<close>
  "update_all new d = foldl (\<lambda>acc (k, v). AList.update k v acc) d new"

subsection \<open>DEBUG\<close>

definition DEBUG :: "config \<Rightarrow> int \<Rightarrow> string \<Rightarrow> world \<Rightarrow> world" where
  "DEBUG cfg level output w =
     (if DEBUG_LEVEL cfg \<ge> level
      then stderr_write (''DEBUG('' @ str level @ '') '' @ output @ os_linesep cfg) w
      else w)"

subsection \<open>render_file_name\<close>

definition ignoredirs :: "string set" where
  "ignoredirs = {''.git'', ''.hg'', ''.svn''}"

definition name_environment :: "config \<Rightarrow> string \<Rightarrow> environment" where
  \<comment> \<open>lines 504-505\<close>
  "name_environment cfg file =
     \<lparr>searchpath = [os_path_dirname file], encoding = ''utf-8'',
      trim_blocks = True, newline_sequence = j2_linesep cfg\<rparr>"

definition name_world :: "config \<Rightarrow> string \<Rightarrow> world \<Rightarrow> world" where
  \<comment> \<open>lines 502-507: the world in which the engine renders a naming template\<close>
  "name_world cfg file w0 =
     (let w1 = DEBUG cfg 1 (''Processing FILENAME template '' @ file) w0;
          env = name_environment cfg file
      in w1\<lparr>globals := update_all
              [(''file'', PStr file),
               (''fsload'', PLoader (searchpath env) (encoding env)),
               (''env'', PEnv env)] (globals w1)\<rparr>)"

definition note_name :: "config \<Rightarrow> string \<Rightarrow> string \<Rightarrow> world \<Rightarrow> world" where
  \<comment> \<open>line 518\<close>
  "note_name cfg file result w =
     DEBUG cfg 3 (''Resulting FILENAME template '' @ file @ '' is '' @ result) w"

definition render_file_name :: "config \<Rightarrow> engine \<Rightarrow> string \<Rightarrow> world \<Rightarrow> string outcome" where
  "render_file_name cfg eng file w0 =
     (let w2 = name_world cfg file w0
      in case eng (name_environment cfg file) (j2 w2) (globals w2) (files w2)
                (os_path_basename file) of
           Rendered result \<Rightarrow> Returned result (note_name cfg file result w2)
         | TemplateNotFound name \<Rightarrow>
             Exit (stderr_write
               (''j2: Command line error TemplateNotFound: Can'' @ APOS @ ''t open template ''
                  @ file @ NL) w2)
         | TemplateSyntaxError filename lineno message \<Rightarrow>
             Exit (stderr_write
               (filename @ ''('' @ str lineno @ ''): j2 error TemplateSyntaxError:  ''
                  @ message @ NL)
               (stderr_write
                 (''j2: Command line error TemplateSyntaxError: '' @ filename @ ''(''
                    @ str lineno @ '') '' @ message @ NL) w2)))"

subsection \<open>render_file_template\<close>

definition file_environment :: "config \<Rightarrow> string \<Rightarrow> environment" where
  \<comment> \<open>lines 526, 531-532\<close>
  "file_environment cfg file =
     \<lparr>searchpath = os_path_dirname file # TEMPLATEPATH cfg, encoding = j2_encoding cfg,
      trim_blocks = (TRIM cfg = 1), newline_sequence = j2_linesep cfg\<rparr>"

definition set_log :: "config \<Rightarrow> string list \<Rightarrow> (string \<times> string) list \<Rightarrow> (string \<times> string) list" where
  \<comment> \<open>lines 527-529\<close>
  "set_log cfg templatepath d0 =
     (let d1 = AList.update ''templatepath'' (join os_pathsep templatepath) d0;
          d2 = AList.update ''log'' (''J2: Template '' @ j2_item d1 ''templatepath'') d1
      in AList.update ''logall''
           (join (os_linesep cfg)
              [j2_item d2 ''log'', j2_item d2 ''log1'', j2_item d2 ''log2'',
               j2_item d2 ''log3'', j2_item d2 ''log4'']) d2)"

definition file_world :: "config \<Rightarrow> string \<Rightarrow> stream \<Rightarrow> world \<Rightarrow> world" where
  \<comment> \<open>lines 525-534: the world in which the engine renders a content template\<close>
  "file_world cfg file output w0 =
     (let w1 = DEBUG cfg 1 (''Processing FILE template '' @ file) w0;
          templatepath = os_path_dirname file # TEMPLATEPATH cfg;
          env = file_environment cfg file
      in w1\<lparr>j2 := set_log cfg templatepath (j2 w1),
             globals := update_all
               [(''file'', PStr file),
                (''output'', stream_val output),
                (''templatepath'', PList templatepath),
                (''fsload'', PLoader (searchpath env) (encoding env)),
                (''env'', PEnv env)] (globals w1)\<rparr>)"

definition render_file_template :: "config \<Rightarrow> engine \<Rightarrow> string \<Rightarrow> stream \<Rightarrow> world \<Rightarrow> unit outcome" where
  "render_file_template cfg eng file output w0 =
     (let w2 = file_world cfg file output w0
      in case eng (file_environment cfg file) (j2 w2) (globals w2) (files w2)
                (os_path_basename file) of
           Rendered text \<Rightarrow> stream_write cfg output (text @ os_linesep cfg) w2
         | TemplateNotFound name \<Rightarrow>
             Exit (stderr_write
               (''j2: Command line error TemplateNotFound: Can'' @ APOS @ ''t open template ''
                  @ name @ os_linesep cfg) w2)
         | TemplateSyntaxError filename lineno message \<Rightarrow>
             Exit (stderr_write
               (filename @ ''('' @ str lineno @ ''): j2 error TemplateSyntaxError:  ''
                  @ message @ os_linesep cfg)
               (stderr_write
                 (''j2: Command line error TemplateSyntaxError: '' @ filename @ ''(''
                    @ str lineno @ '') '' @ message @ os_linesep cfg) w2)))"

subsection \<open>render_folder_template\<close>

definition QUOTE :: string where
  "QUOTE = [CHR 0x22]"

definition j2n_suffix :: "string \<Rightarrow> bool" where
  \<comment> \<open>the four characters \<^verbatim>\<open>.j2n\<close>, letters in either case (\<^verbatim>\<open>re.IGNORECASE\<close>)\<close>
  "j2n_suffix s =
     (case s of
        [a, b, c, d] \<Rightarrow>
          a = CHR ''.'' \<and> (b = CHR ''j'' \<or> b = CHR ''J'') \<and> c = CHR ''2''
            \<and> (d = CHR ''n'' \<or> d = CHR ''N'')
      | _ \<Rightarrow> False)"

definition is_j2n :: "string \<Rightarrow> bool" where
  \<comment> \<open>\<^verbatim>\<open>re.search("\.j2n$", item, re.IGNORECASE)\<close>: the dollar matches at the end of the
      string and also just before a final newline\<close>
  "is_j2n item =
     (let r = rev item
      in j2n_suffix (rev (take 4 r))
         \<or> (r \<noteq> [] \<and> hd r = CHR 0x0A \<and> j2n_suffix (rev (take 4 (tl r)))))"

definition enter_folder :: "config \<Rightarrow> string \<Rightarrow> string \<Rightarrow> world \<Rightarrow> world" where
  \<comment> \<open>line 551\<close>
  "enter_folder cfg folder dest w =
     DEBUG cfg 1 (''Processing FOLDER template '' @ QUOTE @ folder @ QUOTE
       @ '' to location '' @ QUOTE @ dest @ QUOTE) w"

definition note_folder :: "config \<Rightarrow> string \<Rightarrow> world \<Rightarrow> world" where
  \<comment> \<open>line 565\<close>
  "note_folder cfg item w =
     DEBUG cfg 2 (''  folder item '' @ QUOTE @ item @ QUOTE @ '' is folder'') w"

definition note_file :: "config \<Rightarrow> string \<Rightarrow> world \<Rightarrow> world" where
  \<comment> \<open>line 575\<close>
  "note_file cfg item w =
     DEBUG cfg 2 (''  folder item '' @ QUOTE @ item @ QUOTE @ '' is file'') w"

definition note_j2n :: "config \<Rightarrow> string \<Rightarrow> world \<Rightarrow> world" where
  \<comment> \<open>lines 570 and 577\<close>
  "note_j2n cfg item w =
     DEBUG cfg 2 (''   found j2n for item '' @ QUOTE @ item @ QUOTE) w"

definition check_writable :: "config \<Rightarrow> string \<Rightarrow> world \<Rightarrow> unit outcome" where
  \<comment> \<open>lines 558-560\<close>
  "check_writable cfg dest w =
     (if \<not> os_access_W_OK (files w) dest
      then Exit (stderr_write
             (''j2: Command line error IOError: Can'' @ APOS @ ''t open folder '' @ dest
                @ '' to render output to'' @ os_linesep cfg) w)
      else Returned () w)"

definition prepare_dest :: "config \<Rightarrow> string \<Rightarrow> world \<Rightarrow> unit outcome" where
  \<comment> \<open>lines 552-560\<close>
  "prepare_dest cfg dest w =
     (if \<not> os_path_exists (files w) dest
      then (case os_mkdir (files w) dest of
              None \<Rightarrow>
                if python3 cfg
                then Exit (stderr_write
                  (''j2: Command line error IOError: Can'' @ APOS @ ''t create folder '' @ dest
                     @ '' to render output to'' @ os_linesep cfg) w)
                else Raised (OSError dest) w
            | Some fs \<Rightarrow> check_writable cfg dest (w\<lparr>files := fs\<rparr>))
      else check_writable cfg dest w)"

definition item_dest :: "config \<Rightarrow> engine \<Rightarrow> string \<Rightarrow> string \<Rightarrow> string \<Rightarrow> world \<Rightarrow> string outcome" where
  \<comment> \<open>lines 569-573 and 576-580: the destination path of an entry\<close>
  "item_dest cfg eng folder dest item w =
     (if os_path_exists (files w) (folder @ os_sep @ item @ ''.j2n'')
      then (case render_file_name cfg eng (folder @ os_sep @ item @ ''.j2n'')
                   (note_j2n cfg item w) of
              Returned name w' \<Rightarrow> Returned (dest @ os_sep @ name) w'
            | Exit w' \<Rightarrow> Exit w'
            | Raised e w' \<Rightarrow> Raised e w')
      else Returned (dest @ os_sep @ item) w)"

definition render_file_item :: "config \<Rightarrow> engine \<Rightarrow> string \<Rightarrow> string \<Rightarrow> string \<Rightarrow> world \<Rightarrow> unit outcome" where
  \<comment> \<open>lines 575-587\<close>
  "render_file_item cfg eng folder dest item w0 =
     (case item_dest cfg eng folder dest item (note_file cfg item w0) of
        Exit w \<Rightarrow> Exit w
      | Raised e w \<Rightarrow> Raised e w
      | Returned fdest w1 \<Rightarrow>
          (case open_wb (files w1) fdest of
             None \<Rightarrow>
               Exit (stderr_write
                 (''j2: Command line error IOError: Can'' @ APOS @ ''t open file '' @ fdest
                    @ '' to render output to'' @ os_linesep cfg) w1)
           | Some fs \<Rightarrow>
               render_file_template cfg eng (folder @ os_sep @ item) (OpenFile fdest)
                 (w1\<lparr>files := fs\<rparr>)))"

text \<open>
  The recursion of \<^verbatim>\<open>render_folder_template\<close> follows the directories of the store, which
  the function itself extends, so it carries fuel: the depth of calls still allowed.
  \<open>None\<close> says that the fuel ran out. \<open>render_items\<close> is the \<^verbatim>\<open>for\<close> loop over the
  listing taken at line 561.
\<close>

fun render_folder_template ::
      "nat \<Rightarrow> config \<Rightarrow> engine \<Rightarrow> string \<Rightarrow> string \<Rightarrow> world \<Rightarrow> unit outcome option"
  and render_items ::
      "nat \<Rightarrow> config \<Rightarrow> engine \<Rightarrow> string \<Rightarrow> string \<Rightarrow> string list \<Rightarrow> world \<Rightarrow> unit outcome option"
where
  "render_folder_template 0 cfg eng folder dest w0 = None"
| "render_folder_template (Suc n) cfg eng folder dest w0 =
     (case prepare_dest cfg dest (enter_folder cfg folder dest w0) of
        Exit w \<Rightarrow> Some (Exit w)
      | Raised e w \<Rightarrow> Some (Raised e w)
      | Returned u w1 \<Rightarrow>
          (case os_listdir (files w1) folder of
             None \<Rightarrow> Some (Raised (OSError folder) w1)
           | Some items \<Rightarrow> render_items n cfg eng folder dest items w1))"
| "render_items n cfg eng folder dest [] w = Some (Returned () w)"
| "render_items n cfg eng folder dest (item # items) w =
     (if is_j2n item then render_items n cfg eng folder dest items w
      else if os_path_isdir (files w) (folder @ os_sep @ item) then
        (let w1 = note_folder cfg item w
         in if item \<in> ignoredirs then render_items n cfg eng folder dest items w1
            else (case item_dest cfg eng folder dest item w1 of
                    Exit w' \<Rightarrow> Some (Exit w')
                  | Raised e w' \<Rightarrow> Some (Raised e w')
                  | Returned ddest w2 \<Rightarrow>
                      (case render_folder_template n cfg eng (folder @ os_sep @ item) ddest w2 of
                         Some (Returned u w3) \<Rightarrow> render_items n cfg eng folder dest items w3
                       | r \<Rightarrow> r)))
      else (case render_file_item cfg eng folder dest item w of
              Returned u w' \<Rightarrow> render_items n cfg eng folder dest items w'
            | Exit w' \<Rightarrow> Some (Exit w')
            | Raised e w' \<Rightarrow> Some (Raised e w')))"

subsection \<open>An engine instance and a source tree for concrete runs\<close>

text \<open>
  \<open>literal_engine\<close> loads the template from the first directory of the search path that
  has it, and returns its text with one final newline removed, as Jinja2 does with its
  default \<^verbatim>\<open>keep_trailing_newline=False\<close>. It interprets no template syntax; a
  template that opens a block tag at its start is reported as a syntax error.
\<close>

fun find_template :: "filesystem \<Rightarrow> string list \<Rightarrow> string \<Rightarrow> (string \<times> string) option" where
  "find_template fs [] name = None"
| "find_template fs (d # ds) name =
     (case map_of fs (d @ os_sep @ name) of
        Some (File src _) \<Rightarrow> Some (d @ os_sep @ name, src)
      | _ \<Rightarrow> find_template fs ds name)"

definition chomp :: "string \<Rightarrow> string" where
  "chomp s = (if s \<noteq> [] \<and> last s = CHR 0x0A then butlast s else s)"

definition literal_engine :: engine where
  "literal_engine env d g fs name =
     (case find_template fs (searchpath env) name of
        None \<Rightarrow> TemplateNotFound name
      | Some (path, src) \<Rightarrow>
          if take 2 src = ''{%'' then TemplateSyntaxError path 1 ''Unexpected end of template''
          else Rendered (chomp src))"

text \<open>
  \<open>probe_engine\<close> renders nothing: it returns the search path and the trim switch of
  the environment it is given, so that a run shows what each function hands to the engine.
\<close>

definition probe_engine :: engine where
  "probe_engine env d g fs name =
     Rendered (join os_pathsep (searchpath env)
       @ (if trim_blocks env then '' trim'' else '' keep''))"

definition posix_config :: config where
  "posix_config =
     \<lparr>python3 = True, os_linesep = NL, j2_linesep = NL, j2_encoding = ''utf-8'',
      TEMPLATEPATH = [], TRIM = 1, DEBUG_LEVEL = 0\<rparr>"

definition python2_config :: config where
  "python2_config = posix_config\<lparr>python3 := False\<rparr>"

definition world_with :: "filesystem \<Rightarrow> world" where
  "world_with fs = \<lparr>files = fs, stderr = [], stdout = [], j2 = [], globals = []\<rparr>"

definition world_of :: "'a outcome \<Rightarrow> world" where
  "world_of r = (case r of Returned _ w \<Rightarrow> w | Exit w \<Rightarrow> w | Raised _ w \<Rightarrow> w)"

definition returned :: "'a outcome option \<Rightarrow> bool" where
  "returned r = (case r of Some (Returned _ _) \<Rightarrow> True | _ \<Rightarrow> False)"

definition final_files :: "'a outcome option \<Rightarrow> filesystem" where
  "final_files r = (case r of Some x \<Rightarrow> files (world_of x) | None \<Rightarrow> [])"

definition returned_value :: "'a outcome \<Rightarrow> 'a option" where
  "returned_value r = (case r of Returned a _ \<Rightarrow> Some a | _ \<Rightarrow> None)"

definition raised_exn :: "'a outcome option \<Rightarrow> exn option" where
  "raised_exn r = (case r of Some (Raised e _) \<Rightarrow> Some e | _ \<Rightarrow> None)"

definition proj_fs :: filesystem where
  "proj_fs =
     [(''/'', Dir True),
      (''/src'', Dir True),
      (''/src/item.txt'', File ''hello'' True),
      (''/src/item.txt.j2n'', File (''widget'' @ NL) True),
      (''/src/.git'', Dir True),
      (''/src/.git/config'', File ''core'' True),
      (''/src/sub'', Dir True),
      (''/src/sub/note.txt'', File (''a'' @ NL @ NL) True)]"

definition proj_dst_fs :: filesystem where
  "proj_dst_fs = proj_fs @ [(''/dst'', Dir True)]"



definition vcs_fs :: filesystem where
  "vcs_fs =
     [(''/'', Dir True),
      (''/src'', Dir True),
      (''/src/vcs'', Dir True),
      (''/src/vcs.j2n'', File ''.git'' True),
      (''/src/vcs/readme'', File ''text'' True)]"

definition bad_fs :: filesystem where
  "bad_fs =
     [(''/'', Dir True),
      (''/src'', Dir True),
      (''/src/bad'', File ''{% if'' True),
      (''/src/broken.j2n'', File ''{% for'' True),
      (''/dst'', Dir True),
      (''/ro'', Dir False)]"

definition options_config :: config where
  "options_config = posix_config\<lparr>TEMPLATEPATH := [''/inc''], TRIM := 0\<rparr>"

subsection \<open>Notions used to state the properties\<close>

text \<open>The two lines a template syntax error puts on the error stream.\<close>

definition invocation_message :: "string \<Rightarrow> int \<Rightarrow> string \<Rightarrow> string \<Rightarrow> string" where
  "invocation_message filename lineno message eol =
     ''j2: Command line error TemplateSyntaxError: '' @ filename @ ''('' @ str lineno @ '') ''
       @ message @ eol"

definition location_message :: "string \<Rightarrow> int \<Rightarrow> string \<Rightarrow> string \<Rightarrow> string" where
  "location_message filename lineno message eol =
     filename @ ''('' @ str lineno @ ''): j2 error TemplateSyntaxError:  '' @ message @ eol"

text \<open>The messages of lines 556 and 559, and the loop that starts at line 561.\<close>

definition create_failure_message :: "config \<Rightarrow> string \<Rightarrow> string" where
  "create_failure_message cfg dest =
     ''j2: Command line error IOError: Can'' @ APOS @ ''t create folder '' @ dest
       @ '' to render output to'' @ os_linesep cfg"

definition not_writable_message :: "config \<Rightarrow> string \<Rightarrow> string" where
  "not_writable_message cfg dest =
     ''j2: Command line error IOError: Can'' @ APOS @ ''t open folder '' @ dest
       @ '' to render output to'' @ os_linesep cfg"

definition iterate ::
  "nat \<Rightarrow> config \<Rightarrow> engine \<Rightarrow> string \<Rightarrow> string \<Rightarrow> world \<Rightarrow> unit outcome option" where
  "iterate n cfg eng folder dest w =
     (case os_listdir (files w) folder of
        None \<Rightarrow> Some (Raised (OSError folder) w)
      | Some items \<Rightarrow> render_items n cfg eng folder dest items w)"

text \<open>The names that end an entry matching the naming suffix, in every letter case.\<close>

definition j2n_names :: "string set" where
  "j2n_names = {''.j2n'', ''.J2n'', ''.j2N'', ''.J2N''}"



text \<open>
  Two worlds give a run the same inputs when they agree on the file system, on the
  \<^verbatim>\<open>j2\<close> dictionary and the globals (the Context) and on standard output; what was
  written to the error stream before may differ. Two outcomes agree when they are of the
  same kind, return the same value and leave worlds with the same inputs.
\<close>

definition same_inputs :: "world \<Rightarrow> world \<Rightarrow> bool" where
  "same_inputs w w' =
     (files w = files w' \<and> j2 w = j2 w' \<and> globals w = globals w' \<and> stdout w = stdout w')"

definition agree :: "'a outcome \<Rightarrow> 'a outcome \<Rightarrow> bool" where
  "agree r r' =
     (case r of
        Returned a w \<Rightarrow> (case r' of Returned a' w' \<Rightarrow> a = a' \<and> same_inputs w w' | _ \<Rightarrow> False)
      | Exit w \<Rightarrow> (case r' of Exit w' \<Rightarrow> same_inputs w w' | _ \<Rightarrow> False)
      | Raised e w \<Rightarrow> (case r' of Raised e' w' \<Rightarrow> e = e' \<and> same_inputs w w' | _ \<Rightarrow> False))"


subsection \<open>Source trees\<close>

text \<open>
  A source tree is described by the entries of a directory in listing order: a file, or a
  directory with its own entries. \<open>tree_at fs folder es\<close> says that the store holds this
  tree at \<open>folder\<close>: the listing of every directory is the list of its entries' names, the
  file entries are files, and no entry has a companion naming template (no path
  \<open>entry.j2n\<close> exists beside it). \<open>under d k\<close> says that the path \<open>k\<close> is \<open>d\<close> or lies
  below it.
\<close>

datatype entry = EFile string | EDir string "entry list"

fun entry_name :: "entry \<Rightarrow> string" where
  "entry_name (EFile n) = n"
| "entry_name (EDir n es) = n"

definition valid_name :: "string \<Rightarrow> bool" where
  "valid_name n = (n \<noteq> [] \<and> \<not> list_ex is_sep n)"

definition under :: "string \<Rightarrow> string \<Rightarrow> bool" where
  "under d k = (k = d \<or> prefix (d @ os_sep) k)"

definition is_dir :: "node \<Rightarrow> bool" where
  "is_dir v = (case v of Dir _ \<Rightarrow> True | File _ _ \<Rightarrow> False)"

fun src_ok :: "filesystem \<Rightarrow> string \<Rightarrow> entry \<Rightarrow> bool" where
  "src_ok fs folder (EFile n) =
     ((case map_of fs (folder @ os_sep @ n) of Some (File _ _) \<Rightarrow> True | _ \<Rightarrow> False)
      \<and> \<not> os_path_exists fs (folder @ os_sep @ n @ ''.j2n''))"
| "src_ok fs folder (EDir n es) =
     (\<not> os_path_exists fs (folder @ os_sep @ n @ ''.j2n'')
      \<and> os_listdir fs (folder @ os_sep @ n) = Some (map entry_name es)
      \<and> distinct (map entry_name es)
      \<and> (\<forall>e\<in>set es. src_ok fs (folder @ os_sep @ n) e))"

definition tree_at :: "filesystem \<Rightarrow> string \<Rightarrow> entry list \<Rightarrow> bool" where
  "tree_at fs folder es =
     (os_listdir fs folder = Some (map entry_name es)
      \<and> distinct (map entry_name es)
      \<and> (\<forall>e\<in>set es. src_ok fs folder e))"

text \<open>
  \<open>prune\<close> removes what the walker skips: entries that match the naming suffix and
  directories of the ignore set, at every depth. \<open>paths root e\<close> lists the paths of an entry
  placed in \<open>root\<close>, a directory before its content, each with the flag "is a directory".
  \<open>plan\<close> is \<open>paths\<close> of the pruned entry, in one recursion. \<open>tree_depth\<close> is the fuel
  a tree needs below its root.
\<close>

fun prune :: "entry \<Rightarrow> entry list" where
  "prune (EFile n) = (if is_j2n n then [] else [EFile n])"
| "prune (EDir n es) =
     (if is_j2n n \<or> n \<in> ignoredirs then [] else [EDir n (concat (map prune es))])"

fun paths :: "string \<Rightarrow> entry \<Rightarrow> (string \<times> bool) list" where
  "paths root (EFile n) = [(root @ os_sep @ n, False)]"
| "paths root (EDir n es) =
     (root @ os_sep @ n, True) # concat (map (paths (root @ os_sep @ n)) es)"

fun depth :: "entry \<Rightarrow> nat" where
  "depth (EFile n) = 0"
| "depth (EDir n es) = Suc (fold max (map depth es) 0)"

definition tree_depth :: "entry list \<Rightarrow> nat" where
  "tree_depth es = fold max (map depth es) 0"

fun plan :: "string \<Rightarrow> entry \<Rightarrow> (string \<times> bool) list" where
  "plan dest (EFile n) = (if is_j2n n then [] else [(dest @ os_sep @ n, False)])"
| "plan dest (EDir n es) =
     (if is_j2n n \<or> n \<in> ignoredirs then []
      else (dest @ os_sep @ n, True) # concat (map (plan (dest @ os_sep @ n)) es))"

definition kinds :: "filesystem \<Rightarrow> (string \<times> bool) list" where
  "kinds new = map (\<lambda>(k, v). (k, is_dir v)) new"

text \<open>
  The engine renders the content file \<open>p\<close> when it returns text for it in every Context
  and every store that agrees with \<open>base\<close> below \<open>root\<close>, the source directory.
  \<open>content_paths\<close> are the files of a tree that the walker renders.
\<close>

definition renders :: "engine \<Rightarrow> config \<Rightarrow> filesystem \<Rightarrow> string \<Rightarrow> string \<Rightarrow> bool" where
  "renders eng cfg base root p =
     (\<forall>d g fs. (\<forall>k. under root k \<longrightarrow> map_of fs k = map_of base k) \<longrightarrow>
        (\<exists>text. eng (file_environment cfg p) d g fs (os_path_basename p) = Rendered text))"

definition content_paths :: "string \<Rightarrow> entry list \<Rightarrow> string list" where
  "content_paths folder es = map fst (filter (\<lambda>(k, b). \<not> b) (concat (map (plan folder) es)))"

text \<open>
  The invariant of the loop on a tree without naming templates, and what the loop has
  done when it returns: the store has grown by \<open>new\<close>, the planned paths in order.
\<close>

definition items_pre ::
  "engine \<Rightarrow> config \<Rightarrow> filesystem \<Rightarrow> string \<Rightarrow> nat \<Rightarrow> string \<Rightarrow> string \<Rightarrow> entry list \<Rightarrow> world \<Rightarrow> bool" where
  "items_pre eng cfg base root n folder dest es w =
     (\<not> python3 cfg
      \<and> (\<forall>p\<in>set (content_paths folder es). renders eng cfg base root p)
      \<and> (\<forall>e\<in>set es. src_ok (files w) folder e)
      \<and> distinct (map entry_name es)
      \<and> (\<forall>e\<in>set es. valid_name (entry_name e))
      \<and> (\<forall>e\<in>set es. depth e \<le> n)
      \<and> (\<forall>k. under folder k \<longrightarrow> under root k)
      \<and> (\<forall>k. under dest k \<longrightarrow> \<not> under root k)
      \<and> map_of (files w) dest = Some (Dir True) \<and> dest \<noteq> [] \<and> \<not> is_sep (last dest)
      \<and> (\<forall>e\<in>set es. \<forall>k\<in>fst ` set (files w). \<not> under (dest @ os_sep @ entry_name e) k)
      \<and> (\<forall>k. under root k \<longrightarrow> map_of (files w) k = map_of base k))"

definition mirrored :: "unit outcome option \<Rightarrow> filesystem \<Rightarrow> string \<Rightarrow> entry list \<Rightarrow> bool" where
  "mirrored r fs dest es =
     (\<exists>w' new. r = Some (Returned () w') \<and> files w' = fs @ new
        \<and> kinds new = concat (map (plan dest) es))"

text \<open>A tree without naming templates, for concrete runs.\<close>

definition plain_fs :: filesystem where
  "plain_fs =
     [(''/'', Dir True),
      (''/src'', Dir True),
      (''/src/note.txt'', File (''hello'' @ NL) True),
      (''/src/.git'', Dir True),
      (''/src/.git/config'', File ''core'' True),
      (''/src/orphan.j2n'', File ''x'' True),
      (''/src/sub'', Dir True),
      (''/src/sub/a.txt'', File ''a'' True)]"

definition two_level_fs :: filesystem where
  "two_level_fs =
     [(''/'', Dir True),
      (''/src'', Dir True),
      (''/src/note.txt'', File (''hello'' @ NL) True),
      (''/src/sub'', Dir True),
      (''/src/sub/a.txt'', File ''a'' True)]"

definition plain_tree :: "entry list" where
  "plain_tree =
     [EFile ''note.txt'', EDir ''.git'' [EFile ''config''], EFile ''orphan.j2n'',
      EDir ''sub'' [EFile ''a.txt'']]"

section \<open>Properties\<close>

subsection \<open>What the debug lines and the error stream leave untouched\<close>

lemma files_stderr_write [simp]: "files (stderr_write s w) = files w"
  and j2_stderr_write [simp]: "j2 (stderr_write s w) = j2 w"
  and globals_stderr_write [simp]: "globals (stderr_write s w) = globals w"
  and stdout_stderr_write [simp]: "stdout (stderr_write s w) = stdout w"
  and stderr_stderr_write [simp]: "stderr (stderr_write s w) = stderr w @ [s]"
  by (simp_all add: stderr_write_def)

lemma files_DEBUG [simp]: "files (DEBUG cfg l s w) = files w"
  and j2_DEBUG [simp]: "j2 (DEBUG cfg l s w) = j2 w"
  and globals_DEBUG [simp]: "globals (DEBUG cfg l s w) = globals w"
  and stdout_DEBUG [simp]: "stdout (DEBUG cfg l s w) = stdout w"
  by (simp_all add: DEBUG_def)

lemma files_enter_folder [simp]: "files (enter_folder cfg f d w) = files w"
  and j2_enter_folder [simp]: "j2 (enter_folder cfg f d w) = j2 w"
  and globals_enter_folder [simp]: "globals (enter_folder cfg f d w) = globals w"
  and stdout_enter_folder [simp]: "stdout (enter_folder cfg f d w) = stdout w"
  by (simp_all add: enter_folder_def)

lemma files_note_folder [simp]: "files (note_folder cfg i w) = files w"
  and j2_note_folder [simp]: "j2 (note_folder cfg i w) = j2 w"
  and globals_note_folder [simp]: "globals (note_folder cfg i w) = globals w"
  and stdout_note_folder [simp]: "stdout (note_folder cfg i w) = stdout w"
  by (simp_all add: note_folder_def)

lemma files_note_file [simp]: "files (note_file cfg i w) = files w"
  and j2_note_file [simp]: "j2 (note_file cfg i w) = j2 w"
  and globals_note_file [simp]: "globals (note_file cfg i w) = globals w"
  and stdout_note_file [simp]: "stdout (note_file cfg i w) = stdout w"
  by (simp_all add: note_file_def)

lemma files_note_j2n [simp]: "files (note_j2n cfg i w) = files w"
  and j2_note_j2n [simp]: "j2 (note_j2n cfg i w) = j2 w"
  and globals_note_j2n [simp]: "globals (note_j2n cfg i w) = globals w"
  and stdout_note_j2n [simp]: "stdout (note_j2n cfg i w) = stdout w"
  by (simp_all add: note_j2n_def)

lemma files_note_name [simp]: "files (note_name cfg f r w) = files w"
  and j2_note_name [simp]: "j2 (note_name cfg f r w) = j2 w"
  and globals_note_name [simp]: "globals (note_name cfg f r w) = globals w"
  and stdout_note_name [simp]: "stdout (note_name cfg f r w) = stdout w"
  by (simp_all add: note_name_def)

lemma files_name_world [simp]: "files (name_world cfg file w) = files w"
  and j2_name_world [simp]: "j2 (name_world cfg file w) = j2 w"
  and stdout_name_world [simp]: "stdout (name_world cfg file w) = stdout w"
  by (simp_all add: name_world_def Let_def)

lemma files_file_world [simp]: "files (file_world cfg file out w) = files w"
  and stdout_file_world [simp]: "stdout (file_world cfg file out w) = stdout w"
  by (simp_all add: file_world_def Let_def)

subsection \<open>The file system operations\<close>

lemma os_mkdir_isdir: "os_mkdir fs p = Some fs' \<Longrightarrow> os_path_isdir fs' p"
  by (auto simp: os_mkdir_def os_path_isdir_def update_conv' split: option.splits node.splits bool.splits)

lemma open_wb_empty: "open_wb fs p = Some fs' \<Longrightarrow> map_of fs' p = Some (File [] True)"
  by (auto simp: open_wb_def update_conv' split: option.splits node.splits bool.splits if_splits)

lemma open_wb_other: "open_wb fs p = Some fs' \<Longrightarrow> q \<noteq> p \<Longrightarrow> map_of fs' q = map_of fs q"
  by (auto simp: open_wb_def update_conv' split: option.splits node.splits bool.splits if_splits)


lemma stream_write_python2:
  "\<not> python3 cfg \<Longrightarrow>
   stream_write cfg (OpenFile p) s w
     = Returned () (w\<lparr>files := AList.map_entry p (append_content s) (files w)\<rparr>)"
  by (simp add: stream_write_def)

lemma map_of_stream_write_same:
  "map_of (files w) p = Some (File c wr) \<Longrightarrow>
   map_of (files (world_of (stream_write cfg (OpenFile p) s w))) p
     = Some (File (if python3 cfg then c else c @ s) wr)"
  by (simp add: stream_write_def world_of_def map_of_map_entry append_content_def)

lemma map_of_stream_write_other:
  "q \<noteq> p \<Longrightarrow>
   map_of (files (world_of (stream_write cfg (OpenFile p) s w))) q = map_of (files w) q"
  by (simp add: stream_write_def world_of_def map_of_map_entry)

subsection \<open>One entry\<close>

lemma render_file_name_files:
  "render_file_name cfg eng file w = Returned name w' \<Longrightarrow> files w' = files w"
  by (auto simp: render_file_name_def Let_def split: render_result.splits)

lemma item_dest_files:
  "item_dest cfg eng folder dest item w = Returned d w' \<Longrightarrow> files w' = files w"
  by (auto simp: item_dest_def dest: render_file_name_files split: if_splits outcome.splits)


lemma entry_without_directive_keeps_name:
  "\<not> os_path_exists (files w) (folder @ os_sep @ item @ ''.j2n'') \<longrightarrow>
     item_dest cfg eng folder dest item w = Returned (dest @ os_sep @ item) w"
  by (simp add: item_dest_def)

lemma render_file_item_open:
  "item_dest cfg eng folder dest item (note_file cfg item w) = Returned fdest w1 \<Longrightarrow>
   open_wb (files w1) fdest = Some fs \<Longrightarrow>
   render_file_item cfg eng folder dest item w
     = render_file_template cfg eng (folder @ os_sep @ item) (OpenFile fdest) (w1\<lparr>files := fs\<rparr>)"
  by (simp add: render_file_item_def)

lemma render_file_template_failure:
  assumes "\<forall>text. eng (file_environment cfg file) (j2 (file_world cfg file out w))
             (globals (file_world cfg file out w)) (files w) (os_path_basename file)
           \<noteq> Rendered text"
  shows "\<exists>w'. render_file_template cfg eng file out w = Exit w' \<and> files w' = files w"
  using assms by (auto simp: render_file_template_def Let_def split: render_result.splits)

lemma render_file_template_success:
  assumes "eng (file_environment cfg file) (j2 (file_world cfg file out w))
             (globals (file_world cfg file out w)) (files w) (os_path_basename file)
           = Rendered text"
  shows "render_file_template cfg eng file out w
           = stream_write cfg out (text @ os_linesep cfg) (file_world cfg file out w)"
  using assms by (simp add: render_file_template_def Let_def)


lemma render_file_item_success:
  assumes "item_dest cfg eng folder dest item (note_file cfg item w) = Returned fdest w1"
    and "open_wb (files w1) fdest = Some fs"
    and "wt = file_world cfg (folder @ os_sep @ item) (OpenFile fdest) (w1\<lparr>files := fs\<rparr>)"
    and "eng (file_environment cfg (folder @ os_sep @ item)) (j2 wt) (globals wt) (files wt)
           (os_path_basename (folder @ os_sep @ item)) = Rendered text"
  shows "render_file_item cfg eng folder dest item w
           = stream_write cfg (OpenFile fdest) (text @ os_linesep cfg) wt"
    and "map_of (files (world_of (stream_write cfg (OpenFile fdest) (text @ os_linesep cfg) wt)))
           fdest
           = Some (File (if python3 cfg then [] else text @ os_linesep cfg) True)"
    and "q \<noteq> fdest \<Longrightarrow>
         map_of (files (world_of (stream_write cfg (OpenFile fdest) (text @ os_linesep cfg) wt))) q
           = map_of (files w) q"
proof -
  show "render_file_item cfg eng folder dest item w
           = stream_write cfg (OpenFile fdest) (text @ os_linesep cfg) wt"
    using assms render_file_item_open[OF assms(1,2)]
    by (simp add: render_file_template_success)
  have "map_of (files wt) fdest = Some (File [] True)"
    using open_wb_empty[OF assms(2)] assms(3) by simp
  then show "map_of (files (world_of (stream_write cfg (OpenFile fdest) (text @ os_linesep cfg) wt)))
           fdest
           = Some (File (if python3 cfg then [] else text @ os_linesep cfg) True)"
    using map_of_stream_write_same[of wt fdest "[]" True] by simp
  show "map_of (files (world_of (stream_write cfg (OpenFile fdest) (text @ os_linesep cfg) wt))) q
           = map_of (files w) q" if "q \<noteq> fdest"
    using that open_wb_other[OF assms(2), of q] item_dest_files[OF assms(1)] assms(3)
    by (simp add: map_of_stream_write_other)
qed

lemma suffix_is_j2n:
  assumes "s \<in> j2n_names" "suffix s item"
  shows "is_j2n item"
proof -
  from assms(2) obtain stem where "item = stem @ s" by (auto simp: suffix_def)
  with assms(1) show ?thesis
    by (auto simp: j2n_names_def is_j2n_def j2n_suffix_def)
qed

lemma render_items_filter:
  "render_items n cfg eng folder dest (filter (\<lambda>i. \<not> is_j2n i) items) w
     = render_items n cfg eng folder dest items w"
proof (induction items arbitrary: w)
  case Nil
  show ?case by simp
next
  case (Cons item items)
  show ?case
  proof (cases "is_j2n item")
    case True
    then show ?thesis using Cons.IH by simp
  next
    case False
    then show ?thesis
      by (simp add: Cons.IH Let_def split: outcome.splits option.splits)
  qed
qed

subsection \<open>Two runs on the same inputs\<close>






lemma set_log_debug [simp]: "set_log (cfg\<lparr>DEBUG_LEVEL := d\<rparr>) tp dict = set_log cfg tp dict"
  by (simp add: set_log_def)



lemma python3_debug [simp]: "python3 (cfg\<lparr>DEBUG_LEVEL := d\<rparr>) = python3 cfg"
  by simp









subsection \<open>Paths\<close>

lemma valid_name_no_sep: "valid_name n \<Longrightarrow> \<forall>c\<in>set n. \<not> is_sep c"
  by (auto simp: valid_name_def list_ex_iff)

lemma basename_join:
  assumes "valid_name n"
  shows "os_path_basename (d @ os_sep @ n) = n"
proof -
  have p: "\<And>x. x \<in> set (rev n) \<Longrightarrow> \<not> is_sep x"
    using valid_name_no_sep[OF assms] by simp
  have "takeWhile (\<lambda>c. \<not> is_sep c) (rev n @ CHR ''/'' # rev d)
          = rev n @ takeWhile (\<lambda>c. \<not> is_sep c) (CHR ''/'' # rev d)"
    by (rule takeWhile_append2) (rule p)
  then have "takeWhile (\<lambda>c. \<not> is_sep c) (rev n @ CHR ''/'' # rev d) = rev n"
    by (simp add: is_sep_def)
  then show ?thesis by (simp add: os_path_basename_def os_sep_def)
qed

lemma dirname_join:
  assumes "valid_name n" "d \<noteq> []" "\<not> is_sep (last d)"
  shows "os_path_dirname (d @ os_sep @ n) = d"
proof -
  have p: "\<And>x. x \<in> set (rev n) \<Longrightarrow> \<not> is_sep x"
    using valid_name_no_sep[OF assms(1)] by simp
  have "dropWhile (\<lambda>c. \<not> is_sep c) (rev n @ CHR ''/'' # rev d)
          = dropWhile (\<lambda>c. \<not> is_sep c) (CHR ''/'' # rev d)"
    by (rule dropWhile_append2) (rule p)
  then have a: "dropWhile (\<lambda>c. \<not> is_sep c) (rev n @ CHR ''/'' # rev d) = CHR ''/'' # rev d"
    by (simp add: is_sep_def)
  have b: "\<not> list_all is_sep (d @ ''/'')"
    using assms(2,3) by (auto simp: list_all_iff)
  have c: "dropWhile is_sep (CHR ''/'' # rev d) = rev d"
    using assms(2,3) by (cases d rule: rev_cases) (auto simp: is_sep_def)
  show ?thesis
    using a b c by (simp add: os_path_dirname_def os_sep_def Let_def)
qed

lemma child_name_join: "valid_name n \<Longrightarrow> child_name d (d @ os_sep @ n) = Some n"
  by (simp add: child_name_def valid_name_def Let_def)

lemma child_name_SomeD: "child_name d k = Some n \<Longrightarrow> k = d @ os_sep @ n \<and> valid_name n"
  by (auto simp: child_name_def valid_name_def Let_def split: if_splits)
     (metis append_take_drop_id append.assoc)

lemma under_refl [simp]: "under d d"
  by (simp add: under_def)

lemma under_join [simp]: "under d (d @ os_sep @ x)"
  by (simp add: under_def)

lemma under_trans: "under a b \<Longrightarrow> under b c \<Longrightarrow> under a c"
  by (auto simp: under_def prefix_def)

lemma under_child: "under (d @ os_sep @ n) k \<Longrightarrow> under d k"
  by (rule under_trans[of d "d @ os_sep @ n"]) simp_all

lemma not_under_child: "\<not> under (d @ os_sep @ n) d"
  by (auto simp: under_def prefix_def os_sep_def)

lemma under_cases:
  assumes "under a k" "under b k"
  shows "under a b \<or> under b a"
proof -
  consider "k = a" | "k = b" | "prefix (a @ os_sep) k" "prefix (b @ os_sep) k"
    using assms by (auto simp: under_def)
  then show ?thesis
  proof cases
    case 1
    then show ?thesis using assms(2) by simp
  next
    case 2
    then show ?thesis using assms(1) by simp
  next
    case 3
    then have "prefix (a @ os_sep) (b @ os_sep) \<or> prefix (b @ os_sep) (a @ os_sep)"
      by (rule prefix_same_cases)
    moreover have "under x y" if "prefix (x @ os_sep) (y @ os_sep)" for x y
    proof -
      from that obtain z where z: "y @ os_sep = x @ os_sep @ z"
        by (auto simp: prefix_def)
      show ?thesis
      proof (cases z rule: rev_cases)
        case Nil
        with z show ?thesis by (simp add: under_def)
      next
        case (snoc z' c)
        with z have "y = x @ os_sep @ z'" by (simp add: os_sep_def)
        then show ?thesis by (simp add: under_def)
      qed
    qed
    ultimately show ?thesis by blast
  qed
qed

lemma under_join_cases:
  assumes "under (d @ os_sep @ a) k"
  shows "\<exists>r. k = d @ os_sep @ a @ r \<and> (r = [] \<or> hd r = CHR ''/'')"
  using assms by (auto simp: under_def prefix_def os_sep_def)

lemma under_siblings:
  assumes "under (d @ os_sep @ a) k" "under (d @ os_sep @ b) k" "valid_name a" "valid_name b"
  shows "a = b"
proof -
  from under_join_cases[OF assms(1)] obtain r where
    r: "k = d @ os_sep @ a @ r" "r = [] \<or> hd r = CHR ''/''" by blast
  from under_join_cases[OF assms(2)] obtain t where
    t: "k = d @ os_sep @ b @ t" "t = [] \<or> hd t = CHR ''/''" by blast
  from r(1) t(1) have e: "a @ r = b @ t" by simp
  have na: "\<forall>c\<in>set a. c \<noteq> CHR ''/''" and nb: "\<forall>c\<in>set b. c \<noteq> CHR ''/''"
    using valid_name_no_sep[OF assms(3)] valid_name_no_sep[OF assms(4)]
    by (simp_all add: is_sep_def)
  have "takeWhile (\<lambda>c. c \<noteq> CHR ''/'') (a @ r) = a"
    using na r(2) by (cases r) (simp_all add: takeWhile_append2)
  moreover have "takeWhile (\<lambda>c. c \<noteq> CHR ''/'') (b @ t) = b"
    using nb t(2) by (cases t) (simp_all add: takeWhile_append2)
  ultimately show ?thesis using e by simp
qed

subsection \<open>The store as a list\<close>

lemma update_fresh: "k \<notin> fst ` set al \<Longrightarrow> AList.update k v al = al @ [(k, v)]"
  by (induction al) auto

lemma map_entry_last: "k \<notin> fst ` set al \<Longrightarrow> AList.map_entry k f (al @ [(k, v)]) = al @ [(k, f v)]"
  by (induction al) auto

lemma map_of_fresh: "k \<notin> fst ` set al \<Longrightarrow> map_of al k = None"
  by (simp add: map_of_eq_None_iff)

lemma map_of_append_old: "map_of al k = Some v \<Longrightarrow> map_of (al @ new) k = Some v"
  by (simp add: map_add_Some_iff)

lemma map_of_append_other: "k \<notin> fst ` set new \<Longrightarrow> map_of (al @ new) k = map_of al k"
  by (simp add: map_add_def map_of_fresh split: option.splits)

lemma listdir_append:
  assumes "os_listdir fs d = Some ns" "\<forall>k\<in>fst ` set new. child_name d k = None"
  shows "os_listdir (fs @ new) d = Some ns"
proof -
  from assms(1) obtain wr where d: "map_of fs d = Some (Dir wr)"
    and ns: "ns = List.map_filter (child_name d) (map fst fs)"
    by (auto simp: os_listdir_def split: option.splits node.splits)
  have "List.map_filter (child_name d) (map fst new) = []"
    using assms(2) by (induction new) (auto simp: List.map_filter_simps)
  then show ?thesis
    using map_of_append_old[OF d, of new] ns
    by (simp add: os_listdir_def List.map_filter_def)
qed

lemma child_name_valid: "child_name d k = Some n \<Longrightarrow> valid_name n"
  by (simp add: child_name_SomeD)

lemma listdir_valid:
  assumes "os_listdir fs d = Some ns" "n \<in> set ns"
  shows "valid_name n"
proof -
  from assms(1) have "ns = List.map_filter (child_name d) (map fst fs)"
    by (auto simp: os_listdir_def split: option.splits node.splits)
  with assms(2) obtain k where "child_name d k = Some n"
    by (auto simp: List.map_filter_def)
  then show ?thesis by (rule child_name_valid)
qed

lemma listdir_isdir: "os_listdir fs d = Some ns \<Longrightarrow> os_path_isdir fs d"
  by (auto simp: os_listdir_def os_path_isdir_def split: option.splits node.splits)

lemma child_under: "child_name d k = Some n \<Longrightarrow> under d k"
  by (auto dest: child_name_SomeD)

lemma src_ok_append:
  assumes "src_ok fs folder e" "\<forall>k\<in>fst ` set new. \<not> under folder k"
  shows "src_ok (fs @ new) folder e"
  using assms
proof (induction e arbitrary: folder)
  case (EFile n)
  have "folder @ os_sep @ n @ ''.j2n'' \<notin> fst ` set new"
    using EFile.prems(2) under_join[of folder "n @ ''.j2n''"] by blast
  then show ?case
    using EFile.prems(1)
    by (auto simp: os_path_exists_def map_of_append_other map_of_append_old map_of_fresh
        split: option.splits node.splits)
next
  case (EDir n es)
  have j: "folder @ os_sep @ n @ ''.j2n'' \<notin> fst ` set new"
    using EDir.prems(2) under_join[of folder "n @ ''.j2n''"] by blast
  have sub: "\<forall>k\<in>fst ` set new. \<not> under (folder @ os_sep @ n) k"
    using EDir.prems(2) under_child by blast
  then have c: "\<forall>k\<in>fst ` set new. child_name (folder @ os_sep @ n) k = None"
    using child_under by (metis not_Some_eq)
  show ?case
    using EDir.prems(1) j EDir.IH sub listdir_append[OF _ c]
    by (auto simp: os_path_exists_def map_of_append_other map_of_fresh)
qed

subsection \<open>Trees\<close>

lemma plan_paths_prune: "plan dest e = concat (map (paths dest) (prune e))"
proof (induction e arbitrary: dest)
  case (EFile n)
  show ?case by simp
next
  case (EDir n es)
  have "concat (map (plan d) es) = concat (map (paths d) (concat (map prune es)))" for d
    using EDir.IH by (induction es) auto
  then show ?case by simp
qed

lemma depth_member: "e \<in> set es \<Longrightarrow> depth e \<le> fold max (map depth es) a"
proof (induction es arbitrary: a)
  case Nil
  then show ?case by simp
next
  case (Cons x xs)
  have m: "a \<le> fold max (map depth xs) a" for a
    by (induction xs arbitrary: a) (auto intro: order_trans[OF max.cobounded2])
  from Cons show ?case
    using m[of "max (depth x) a"] by auto
qed

lemma plan_under: "(k, b) \<in> set (plan d e) \<Longrightarrow> under (d @ os_sep @ entry_name e) k"
proof (induction e arbitrary: d k b)
  case (EFile n)
  then show ?case by (auto split: if_splits)
next
  case (EDir n es)
  then show ?case
    by (auto split: if_splits dest!: EDir.IH intro: under_child)
qed

lemma content_paths_Cons:
  "set (content_paths folder es) \<subseteq> set (content_paths folder (e # es))"
  by (auto simp: content_paths_def)

lemma content_paths_file:
  "\<not> is_j2n nm \<Longrightarrow> folder @ os_sep @ nm \<in> set (content_paths folder (EFile nm # es))"
  by (simp add: content_paths_def)

lemma content_paths_dir:
  "\<not> is_j2n nm \<Longrightarrow> nm \<notin> ignoredirs \<Longrightarrow>
   set (content_paths (folder @ os_sep @ nm) sub)
     \<subseteq> set (content_paths folder (EDir nm sub # es))"
  by (auto simp: content_paths_def)

subsection \<open>The walk on a tree without naming templates\<close>

lemma prepare_dest_fresh:
  assumes "\<forall>k\<in>fst ` set (files w). \<not> under dest k"
    and "map_of (files w) (os_path_dirname dest) = Some (Dir True)"
  shows "prepare_dest cfg dest w = Returned () (w\<lparr>files := files w @ [(dest, Dir True)]\<rparr>)"
proof -
  have nk: "dest \<notin> fst ` set (files w)"
    using assms(1) under_refl by blast
  then have n: "map_of (files w) dest = None"
    by (rule map_of_fresh)
  show ?thesis
    using assms(2) n
    by (simp add: prepare_dest_def os_path_exists_def os_mkdir_def update_fresh[OF nk]
        check_writable_def os_access_W_OK_def map_add_def)
qed

lemma file_step:
  assumes py: "\<not> python3 cfg"
    and vn: "valid_name nm"
    and src: "src_ok (files w) folder (EFile nm)"
    and dd: "map_of (files w) dest = Some (Dir True)" and dne: "dest \<noteq> []"
    and dl: "\<not> is_sep (last dest)"
    and fresh: "dest @ os_sep @ nm \<notin> fst ` set (files w)"
    and eng: "\<And>d g. \<exists>text. eng (file_environment cfg (folder @ os_sep @ nm)) d g
                 (files w @ [(dest @ os_sep @ nm, File [] True)])
                 (os_path_basename (folder @ os_sep @ nm)) = Rendered text"
  shows "\<exists>w' c. render_file_item cfg eng folder dest nm w = Returned () w'
           \<and> files w' = files w @ [(dest @ os_sep @ nm, File c True)]"
proof -
  let ?fd = "dest @ os_sep @ nm"
  let ?fs = "files w @ [(?fd, File [] True)]"
  let ?wt = "file_world cfg (folder @ os_sep @ nm) (OpenFile ?fd)
               (note_file cfg nm w\<lparr>files := ?fs\<rparr>)"
  have d: "item_dest cfg eng folder dest nm (note_file cfg nm w)
             = Returned ?fd (note_file cfg nm w)"
    using src by (simp add: item_dest_def)
  have ne: "nm \<noteq> []" using vn by (simp add: valid_name_def)
  have o: "open_wb (files (note_file cfg nm w)) ?fd = Some ?fs"
    using dd ne
    by (simp add: open_wb_def map_of_fresh[OF fresh] basename_join[OF vn]
        dirname_join[OF vn dne dl] update_fresh[OF fresh])
  from eng[of "j2 ?wt" "globals ?wt"] obtain out where
    t: "eng (file_environment cfg (folder @ os_sep @ nm)) (j2 ?wt) (globals ?wt) (files ?wt)
          (os_path_basename (folder @ os_sep @ nm)) = Rendered out"
    by auto
  let ?w' = "?wt\<lparr>files := AList.map_entry ?fd (append_content (out @ os_linesep cfg))
                        (files ?wt)\<rparr>"
  have r: "render_file_item cfg eng folder dest nm w = Returned () ?w'"
    using render_file_item_success(1)[OF d o refl t] stream_write_python2[OF py] by simp
  have "files ?w' = files w @ [(?fd, File (out @ os_linesep cfg) True)]"
    by (simp add: map_entry_last[OF fresh] append_content_def)
  with r show ?thesis by blast
qed

lemma items_pre_step:
  assumes pre: "items_pre eng cfg base root n folder dest (e # es) w"
    and f: "files w' = files w @ new"
    and u: "\<forall>k\<in>fst ` set new. under (dest @ os_sep @ entry_name e) k"
  shows "items_pre eng cfg base root n folder dest es w'"
proof -
  from pre have zs: "\<forall>k. under folder k \<longrightarrow> under root k"
    and zd: "\<forall>k. under dest k \<longrightarrow> \<not> under root k"
    and dist: "distinct (map entry_name (e # es))"
    and val: "\<forall>x\<in>set (e # es). valid_name (entry_name x)"
    and fresh: "\<forall>x\<in>set (e # es). \<forall>k\<in>fst ` set (files w).
                  \<not> under (dest @ os_sep @ entry_name x) k"
    and agree: "\<forall>k. under root k \<longrightarrow> map_of (files w) k = map_of base k"
    and src: "\<forall>x\<in>set (e # es). src_ok (files w) folder x"
    and dd: "map_of (files w) dest = Some (Dir True)"
    by (simp_all add: items_pre_def)
  have out: "\<forall>k\<in>fst ` set new. \<not> under root k"
    using u zd under_child by blast
  then have outf: "\<forall>k\<in>fst ` set new. \<not> under folder k"
    using zs by blast
  have s: "\<forall>x\<in>set es. src_ok (files w') folder x"
    using src f src_ok_append[OF _ outf] by simp
  have fr: "\<forall>x\<in>set es. \<forall>k\<in>fst ` set (files w').
              \<not> under (dest @ os_sep @ entry_name x) k"
  proof (intro ballI)
    fix x k assume x: "x \<in> set es" and k: "k \<in> fst ` set (files w')"
    show "\<not> under (dest @ os_sep @ entry_name x) k"
    proof (cases "k \<in> fst ` set (files w)")
      case True
      then show ?thesis using fresh x by auto
    next
      case False
      then have kn: "k \<in> fst ` set new" using k f by auto
      show ?thesis
      proof
        assume "under (dest @ os_sep @ entry_name x) k"
        moreover have "under (dest @ os_sep @ entry_name e) k"
          using u kn by blast
        ultimately have "entry_name x = entry_name e"
          using val x by (intro under_siblings[of dest "entry_name x" k "entry_name e"]) auto
        then have "entry_name e \<in> entry_name ` set es"
          using x by (metis imageI)
        then show False using dist by simp
      qed
    qed
  qed
  have ag: "\<forall>k. under root k \<longrightarrow> map_of (files w') k = map_of base k"
  proof (intro allI impI)
    fix k assume k: "under root k"
    then have "k \<notin> fst ` set new" using out by blast
    then have "map_of (files w @ new) k = map_of (files w) k"
      by (rule map_of_append_other)
    then show "map_of (files w') k = map_of base k"
      unfolding f using agree k by (simp del: map_of_append)
  qed
  show ?thesis
    using pre s fr ag dd f content_paths_Cons[of folder es e]
    by (auto simp: items_pre_def map_of_append_old)
qed

lemma mirrored_Cons:
  assumes "mirrored r (fs @ new) dest es" "kinds new = plan dest e"
  shows "mirrored r fs dest (e # es)"
  using assms by (auto simp: mirrored_def kinds_def)

lemma folder_mirrors:
  assumes IH: "\<And>folder dest es w.
        items_pre eng cfg base root m folder dest es w \<Longrightarrow>
        mirrored (render_items m cfg eng folder dest (map entry_name es) w) (files w) dest es"
    and py: "\<not> python3 cfg"
    and eng: "\<forall>p\<in>set (content_paths folder es). renders eng cfg base root p"
    and tree: "tree_at (files w) folder es"
    and dep: "\<forall>e\<in>set es. depth e \<le> m"
    and zs: "\<forall>k. under folder k \<longrightarrow> under root k"
    and zd: "\<forall>k. under dest k \<longrightarrow> \<not> under root k"
    and fresh: "\<forall>k\<in>fst ` set (files w). \<not> under dest k"
    and parent: "map_of (files w) (os_path_dirname dest) = Some (Dir True)"
    and dne: "dest \<noteq> []" and dl: "\<not> is_sep (last dest)"
    and agree: "\<forall>k. under root k \<longrightarrow> map_of (files w) k = map_of base k"
  shows "\<exists>w' new. render_folder_template (Suc m) cfg eng folder dest w = Some (Returned () w')
           \<and> files w' = files w @ (dest, Dir True) # new
           \<and> kinds new = concat (map (plan dest) es)"
proof -
  let ?w0 = "enter_folder cfg folder dest w"
  let ?w1 = "?w0\<lparr>files := files w @ [(dest, Dir True)]\<rparr>"
  have p: "prepare_dest cfg dest ?w0 = Returned () ?w1"
    using prepare_dest_fresh[of ?w0 dest cfg] fresh parent by simp
  have nk: "dest \<notin> fst ` set (files w)"
    using fresh under_refl by blast
  have nf0: "\<not> under root dest"
    using zd under_refl by blast
  then have nf: "\<forall>k\<in>fst ` set [(dest, Dir True)]. \<not> under folder k"
    using zs by auto
  then have nc: "\<forall>k\<in>fst ` set [(dest, Dir True)]. child_name folder k = None"
    using child_under by (metis not_Some_eq)
  from tree have l0: "os_listdir (files w) folder = Some (map entry_name es)"
    and dist: "distinct (map entry_name es)"
    and src: "\<forall>e\<in>set es. src_ok (files w) folder e"
    by (simp_all add: tree_at_def)
  have l: "os_listdir (files ?w1) folder = Some (map entry_name es)"
    using listdir_append[OF l0 nc] by simp
  have val: "\<forall>e\<in>set es. valid_name (entry_name e)"
    using listdir_valid[OF l0] by auto
  have s1: "\<forall>e\<in>set es. src_ok (files ?w1) folder e"
    using src src_ok_append[OF _ nf] by simp
  have d1: "map_of (files ?w1) dest = Some (Dir True)"
    using map_of_fresh[OF nk] by (simp add: map_add_def)
  have f1: "\<forall>e\<in>set es. \<forall>k\<in>fst ` set (files ?w1).
              \<not> under (dest @ os_sep @ entry_name e) k"
    using fresh under_child not_under_child by auto
  have a1: "\<forall>k. under root k \<longrightarrow> map_of (files ?w1) k = map_of base k"
  proof (intro allI impI)
    fix k assume k: "under root k"
    then have "k \<noteq> dest" using nf0 by blast
    then have "map_of (files w @ [(dest, Dir True)]) k = map_of (files w) k"
      by (intro map_of_append_other) simp
    then show "map_of (files ?w1) k = map_of base k"
      using agree k by (simp del: map_of_append)
  qed
  have pre: "items_pre eng cfg base root m folder dest es ?w1"
    unfolding items_pre_def
    using py eng s1 dist val dep zs zd d1 dne dl f1 a1 by blast
  from IH[OF pre] obtain w' new where
    r: "render_items m cfg eng folder dest (map entry_name es) ?w1 = Some (Returned () w')"
    and f: "files w' = files ?w1 @ new"
    and k: "kinds new = concat (map (plan dest) es)"
    by (auto simp: mirrored_def)
  have "render_folder_template (Suc m) cfg eng folder dest w = Some (Returned () w')"
    using p l r by simp
  moreover have "files w' = files w @ (dest, Dir True) # new"
    using f by simp
  ultimately show ?thesis using k by blast
qed

lemma render_items_mirrors:
  "items_pre eng cfg base root n folder dest es w \<Longrightarrow>
   mirrored (render_items n cfg eng folder dest (map entry_name es) w) (files w) dest es"
proof (induction n arbitrary: folder dest es w rule: less_induct)
  case (less n)
  note outer = less.IH
  from less.prems show ?case
  proof (induction es arbitrary: w)
    case Nil
    show ?case by (simp add: mirrored_def kinds_def)
  next
    case (Cons e es)
    note pre = Cons.prems
    from pre have zs: "\<forall>k. under folder k \<longrightarrow> under root k"
      and zd: "\<forall>k. under dest k \<longrightarrow> \<not> under root k"
      and vn: "valid_name (entry_name e)"
      and src: "src_ok (files w) folder e"
      and dd: "map_of (files w) dest = Some (Dir True)"
      and dne: "dest \<noteq> []" and dl: "\<not> is_sep (last dest)"
      and fresh: "\<forall>k\<in>fst ` set (files w). \<not> under (dest @ os_sep @ entry_name e) k"
      and agree: "\<forall>k. under root k \<longrightarrow> map_of (files w) k = map_of base k"
      and dep: "depth e \<le> n"
      and eng: "\<forall>p\<in>set (content_paths folder (e # es)). renders eng cfg base root p"
      and py: "\<not> python3 cfg"
      by (simp_all add: items_pre_def)
    show ?case
    proof (cases "is_j2n (entry_name e)")
      case True
      have "items_pre eng cfg base root n folder dest es w"
        using items_pre_step[OF pre, of w "[]"] by simp
      from Cons.IH[OF this] have "mirrored (render_items n cfg eng folder dest (map entry_name es) w) (files w @ []) dest es"
        by simp
      moreover have "kinds [] = plan dest e"
        using True by (cases e) (simp_all add: kinds_def)
      ultimately have "mirrored (render_items n cfg eng folder dest (map entry_name es) w)
                          (files w) dest (e # es)"
        by (rule mirrored_Cons)
      then show ?thesis using True by simp
    next
      case nj: False
      show ?thesis
      proof (cases e)
        case (EFile nm)
        have nd: "\<not> os_path_isdir (files w) (folder @ os_sep @ nm)"
          using src EFile by (auto simp: os_path_isdir_def split: option.splits node.splits)
        have fk: "dest @ os_sep @ nm \<notin> fst ` set (files w)"
          using fresh EFile under_refl by auto
        have en: "\<exists>out. eng (file_environment cfg (folder @ os_sep @ nm)) d g
                 (files w @ [(dest @ os_sep @ nm, File [] True)])
                 (os_path_basename (folder @ os_sep @ nm)) = Rendered out" for d g
        proof -
          have r: "renders eng cfg base root (folder @ os_sep @ nm)"
            using eng nj EFile content_paths_file[of nm folder es] by auto
          have "\<forall>k. under root k \<longrightarrow>
                  map_of (files w @ [(dest @ os_sep @ nm, File [] True)]) k = map_of base k"
          proof (intro allI impI)
            fix k assume k: "under root k"
            then have "k \<noteq> dest @ os_sep @ nm" using zd under_join by blast
            then have "map_of (files w @ [(dest @ os_sep @ nm, File [] True)]) k
                         = map_of (files w) k"
              by (intro map_of_append_other) simp
            then show "map_of (files w @ [(dest @ os_sep @ nm, File [] True)]) k = map_of base k"
              using agree k by (simp del: map_of_append)
          qed
          with r show ?thesis unfolding renders_def by blast
        qed
        have vf: "valid_name nm" and sf: "src_ok (files w) folder (EFile nm)"
          using vn src EFile by simp_all
        from file_step[where eng = eng and cfg = cfg, OF py vf sf dd dne dl fk en]
        obtain w1 c where r1: "render_file_item cfg eng folder dest nm w = Returned () w1"
          and f1: "files w1 = files w @ [(dest @ os_sep @ nm, File c True)]"
          by auto
        have "items_pre eng cfg base root n folder dest es w1"
          using items_pre_step[OF pre f1] EFile by simp
        from Cons.IH[OF this] have "mirrored (render_items n cfg eng folder dest (map entry_name es) w1)
                 (files w @ [(dest @ os_sep @ nm, File c True)]) dest es"
          using f1 by simp
        moreover have "kinds [(dest @ os_sep @ nm, File c True)] = plan dest e"
          using nj EFile by (simp add: kinds_def is_dir_def)
        ultimately have "mirrored (render_items n cfg eng folder dest (map entry_name es) w1)
                          (files w) dest (e # es)"
          by (rule mirrored_Cons)
        then show ?thesis using nj nd r1 EFile by simp
      next
        case (EDir nm sub)
        from src EDir have l: "os_listdir (files w) (folder @ os_sep @ nm) = Some (map entry_name sub)"
          and nc: "\<not> os_path_exists (files w) (folder @ os_sep @ nm @ ''.j2n'')"
          and subtree: "tree_at (files w) (folder @ os_sep @ nm) sub"
          by (simp_all add: tree_at_def)
        have isd: "os_path_isdir (files w) (folder @ os_sep @ nm)"
          using l by (rule listdir_isdir)
        let ?w1 = "note_folder cfg nm w"
        show ?thesis
        proof (cases "nm \<in> ignoredirs")
          case True
          have "items_pre eng cfg base root n folder dest es ?w1"
            using items_pre_step[OF pre, of ?w1 "[]"] by simp
          from Cons.IH[OF this] have "mirrored (render_items n cfg eng folder dest (map entry_name es) ?w1)
                   (files w @ []) dest es"
            by simp
          moreover have "kinds [] = plan dest e"
            using True EDir by (simp add: kinds_def)
          ultimately have "mirrored (render_items n cfg eng folder dest (map entry_name es) ?w1)
                          (files w) dest (e # es)"
            by (rule mirrored_Cons)
          then show ?thesis using nj isd True EDir by simp
        next
          case ni: False
          from dep EDir obtain m where n: "n = Suc m" and dm: "\<forall>x\<in>set sub. depth x \<le> m"
            using depth_member[of _ sub 0] by (cases n) (auto intro: order_trans)
          have idest: "item_dest cfg eng folder dest nm ?w1
                         = Returned (dest @ os_sep @ nm) ?w1"
            using nc by (simp add: item_dest_def)
          have e2: "\<forall>p\<in>set (content_paths (folder @ os_sep @ nm) sub). renders eng cfg base root p"
            using eng nj ni EDir content_paths_dir[of nm folder sub es] by auto
          have vnm: "valid_name nm" using vn EDir by simp
          have last_nm: "\<not> is_sep (last (dest @ os_sep @ nm))"
            using vnm valid_name_no_sep[OF vnm] by (auto simp: valid_name_def)
          have rec: "\<exists>w' new. render_folder_template (Suc m) cfg eng (folder @ os_sep @ nm)
                         (dest @ os_sep @ nm) ?w1 = Some (Returned () w')
                 \<and> files w' = files ?w1 @ (dest @ os_sep @ nm, Dir True) # new
                 \<and> kinds new = concat (map (plan (dest @ os_sep @ nm)) sub)"
          proof (rule folder_mirrors[where base = base and root = root])
            show "items_pre eng cfg base root m f d xs v \<Longrightarrow>
                  mirrored (render_items m cfg eng f d (map entry_name xs) v) (files v) d xs"
              for f d xs v
              using outer[of m f d xs v] n by simp
            show "\<not> python3 cfg" by (rule py)
            show "\<forall>p\<in>set (content_paths (folder @ os_sep @ nm) sub). renders eng cfg base root p"
              by (rule e2)
            show "tree_at (files ?w1) (folder @ os_sep @ nm) sub"
              using subtree by simp
            show "\<forall>e\<in>set sub. depth e \<le> m" by (rule dm)
            show "\<forall>k. under (folder @ os_sep @ nm) k \<longrightarrow> under root k"
              using zs under_child by blast
            show "\<forall>k. under (dest @ os_sep @ nm) k \<longrightarrow> \<not> under root k"
              using zd under_child by blast
            show "\<forall>k\<in>fst ` set (files ?w1). \<not> under (dest @ os_sep @ nm) k"
              using fresh EDir by simp
            show "map_of (files ?w1) (os_path_dirname (dest @ os_sep @ nm)) = Some (Dir True)"
              using dd dirname_join[OF vnm dne dl] by simp
            show "dest @ os_sep @ nm \<noteq> []" by (simp add: os_sep_def)
            show "\<not> is_sep (last (dest @ os_sep @ nm))" by (rule last_nm)
            show "\<forall>k. under root k \<longrightarrow> map_of (files ?w1) k = map_of base k"
              using agree by simp
          qed
          then obtain w2 new where
            r2: "render_folder_template n cfg eng (folder @ os_sep @ nm) (dest @ os_sep @ nm) ?w1
                   = Some (Returned () w2)"
            and f2: "files w2 = files w @ (dest @ os_sep @ nm, Dir True) # new"
            and k2: "kinds new = concat (map (plan (dest @ os_sep @ nm)) sub)"
            using n by auto
          have un: "\<forall>k\<in>fst ` set ((dest @ os_sep @ nm, Dir True) # new).
                      under (dest @ os_sep @ entry_name e) k"
          proof
            fix k assume "k \<in> fst ` set ((dest @ os_sep @ nm, Dir True) # new)"
            then consider "k = dest @ os_sep @ nm" | v where "(k, v) \<in> set new" by auto
            then show "under (dest @ os_sep @ entry_name e) k"
            proof cases
              case 1
              then show ?thesis using EDir by simp
            next
              case 2
              then have "(k, is_dir v) \<in> set (kinds new)"
                by (force simp: kinds_def)
              then obtain x where "x \<in> set sub" "(k, is_dir v) \<in> set (plan (dest @ os_sep @ nm) x)"
                using k2 by auto
              then have "under ((dest @ os_sep @ nm) @ os_sep @ entry_name x) k"
                using plan_under by blast
              then show ?thesis using EDir under_child[of "dest @ os_sep @ nm"] by simp
            qed
          qed
          have "items_pre eng cfg base root n folder dest es w2"
            using items_pre_step[OF pre f2 un] .
          from Cons.IH[OF this] have "mirrored (render_items n cfg eng folder dest (map entry_name es) w2)
                   (files w @ (dest @ os_sep @ nm, Dir True) # new) dest es"
            using f2 by simp
          moreover have "kinds ((dest @ os_sep @ nm, Dir True) # new) = plan dest e"
            using nj ni EDir k2 by (simp add: kinds_def is_dir_def)
          ultimately have "mirrored (render_items n cfg eng folder dest (map entry_name es) w2)
                          (files w) dest (e # es)"
            by (rule mirrored_Cons)
          then show ?thesis using nj isd ni idest r2 EDir by (simp add: Let_def)
        qed
      qed
    qed
  qed
qed

lemma literal_engine_renders:
  assumes "map_of base p = Some (File src wr)" "take 2 src \<noteq> ''{%''" "under root p"
    and "os_path_dirname p @ os_sep @ os_path_basename p = p"
  shows "renders literal_engine cfg base root p"
  unfolding renders_def
proof (intro allI impI)
  fix d g fs
  assume "\<forall>k. under root k \<longrightarrow> map_of fs k = map_of base k"
  then have "map_of fs p = Some (File src wr)"
    using assms(1,3) by simp
  then show "\<exists>out. literal_engine (file_environment cfg p) d g fs (os_path_basename p)
                = Rendered out"
    using assms(2,4) by (simp add: literal_engine_def file_environment_def)
qed

text \<open>
  On Python 2 the walk mirrors a source tree that has no naming templates. Take a
  destination that does not exist yet, lies neither in the source nor around it and can
  be created, an engine that renders the content files of the tree, and fuel above the
  depth of the tree. Then \<^verbatim>\<open>render_folder_template\<close> returns, and what it has added
  to the store is the destination directory followed by exactly the paths of the source
  tree, replanted at the destination with the same names and kinds in the same order,
  without the entries that match the naming suffix and without the directories of the
  ignore set.
\<close>

lemma python2_walk_mirrors_tree:
  assumes "\<not> python3 cfg"
    and "tree_at (files w) folder es"
    and "tree_depth es < n"
    and "\<not> under folder dest" and "\<not> under dest folder"
    and "\<forall>k\<in>fst ` set (files w). \<not> under dest k"
    and "map_of (files w) (os_path_dirname dest) = Some (Dir True)"
    and "dest \<noteq> []" and "\<not> is_sep (last dest)"
    and "\<forall>p\<in>set (content_paths folder es). renders eng cfg (files w) folder p"
  shows "\<exists>w' new. render_folder_template n cfg eng folder dest w = Some (Returned () w')
           \<and> files w' = files w @ (dest, Dir True) # new
           \<and> kinds new = concat (map (paths dest) (concat (map prune es)))"
proof -
  from assms(3) obtain m where n: "n = Suc m" and tm: "tree_depth es \<le> m"
    by (cases n) auto
  have dep: "\<forall>e\<in>set es. depth e \<le> m"
    using tm depth_member[of _ es 0] by (auto simp: tree_depth_def intro: order_trans)
  have zd: "\<forall>k. under dest k \<longrightarrow> \<not> under folder k"
    using assms(4,5) under_cases by blast
  have "\<exists>w' new. render_folder_template (Suc m) cfg eng folder dest w = Some (Returned () w')
           \<and> files w' = files w @ (dest, Dir True) # new
           \<and> kinds new = concat (map (plan dest) es)"
  proof (rule folder_mirrors[where base = "files w" and root = folder])
    show "items_pre eng cfg (files w) folder m f d xs v \<Longrightarrow>
          mirrored (render_items m cfg eng f d (map entry_name xs) v) (files v) d xs"
      for f d xs v
      by (rule render_items_mirrors)
  qed (use assms dep zd in simp_all)
  moreover have "concat (map (plan dest) es) = concat (map (paths dest) (concat (map prune es)))"
    by (induction es) (simp_all add: plan_paths_prune)
  ultimately show ?thesis using n by simp
qed

lemma python2_walk_mirrors_plain_tree:
  "\<exists>w' new. render_folder_template 2 python2_config literal_engine ''/src'' ''/dst''
               (world_with plain_fs) = Some (Returned () w')
     \<and> files w' = plain_fs @ (''/dst'', Dir True) # new
     \<and> kinds new
         = [(''/dst/note.txt'', False), (''/dst/sub'', True), (''/dst/sub/a.txt'', False)]"
proof -
  let ?w = "world_with plain_fs"
  have h1: "tree_at (files ?w) ''/src'' plain_tree" by code_simp
  have h2: "tree_depth plain_tree < 2" by code_simp
  have h3: "\<not> under ''/src'' ''/dst''" by code_simp
  have h4: "\<not> under ''/dst'' ''/src''" by code_simp
  have h5: "\<forall>k\<in>fst ` set (files ?w). \<not> under ''/dst'' k" by code_simp
  have h6: "map_of (files ?w) (os_path_dirname ''/dst'') = Some (Dir True)" by code_simp
  have h7: "''/dst'' \<noteq> []" by simp
  have h8: "\<not> is_sep (last ''/dst'')" by code_simp
  have c: "content_paths ''/src'' plain_tree = [''/src/note.txt'', ''/src/sub/a.txt'']"
    by code_simp
  have f: "files ?w = plain_fs" by (simp add: world_with_def)
  have r1: "renders literal_engine python2_config plain_fs ''/src'' ''/src/note.txt''"
    by (rule literal_engine_renders[where src = "''hello'' @ NL" and wr = True]) code_simp+
  have r2: "renders literal_engine python2_config plain_fs ''/src'' ''/src/sub/a.txt''"
    by (rule literal_engine_renders[where src = "''a''" and wr = True]) code_simp+
  have h9: "\<forall>p\<in>set (content_paths ''/src'' plain_tree).
              renders literal_engine python2_config (files ?w) ''/src'' p"
    using r1 r2 by (simp add: c f)
  have p: "concat (map (paths ''/dst'') (concat (map prune plain_tree)))
             = [(''/dst/note.txt'', False), (''/dst/sub'', True), (''/dst/sub/a.txt'', False)]"
    by code_simp
  have h0: "\<not> python3 python2_config" by code_simp
  from python2_walk_mirrors_tree[OF h0 h1 h2 h3 h4 h5 h6 h7 h8 h9]
  show ?thesis by (simp add: p f)
qed

section \<open>The claims\<close>




text \<open>
  C2. On Python 2 the claim holds (\<open>python2_walk_mirrors_tree\<close>). On Python 3 the walk
  stops at the first content file: the destination file is opened, the template is
  rendered, and \<^verbatim>\<open>output.write\<close> raises \<^verbatim>\<open>TypeError\<close>. Here the source holds
  \<^verbatim>\<open>note.txt\<close> and the directory \<^verbatim>\<open>sub\<close> with \<^verbatim>\<open>a.txt\<close>, and no naming
  template; the run on Python 3 leaves an empty \<^verbatim>\<open>/dst/note.txt\<close> and never makes
  \<^verbatim>\<open>/dst/sub\<close>, while the run on Python 2 returns with both files under their names.
\<close>

theorem python3_walk_stops_at_first_file:
  "os_listdir two_level_fs ''/src'' = Some [''note.txt'', ''sub'']
   \<and> os_listdir two_level_fs ''/src/sub'' = Some [''a.txt'']
   \<and> raised_exn (render_folder_template 2 posix_config literal_engine ''/src'' ''/dst''
         (world_with two_level_fs)) = Some (TypeError ''/dst/note.txt'' (''hello'' @ NL))
   \<and> map_of (final_files (render_folder_template 2 posix_config literal_engine ''/src'' ''/dst''
         (world_with two_level_fs))) ''/dst/note.txt'' = Some (File [] True)
   \<and> \<not> os_path_exists (final_files (render_folder_template 2 posix_config literal_engine
         ''/src'' ''/dst'' (world_with two_level_fs))) ''/dst/sub''
   \<and> returned (render_folder_template 2 python2_config literal_engine ''/src'' ''/dst''
         (world_with two_level_fs))
   \<and> map_of (final_files (render_folder_template 2 python2_config literal_engine ''/src''
         ''/dst'' (world_with two_level_fs))) ''/dst/note.txt''
       = Some (File (''hello'' @ NL) True)
   \<and> map_of (final_files (render_folder_template 2 python2_config literal_engine ''/src''
         ''/dst'' (world_with two_level_fs))) ''/dst/sub/a.txt''
       = Some (File (''a'' @ NL) True)"
  by code_simp

text \<open>
  C3, as amended. At every depth of the recursion and for any fuel, a source directory
  whose name is in the ignore set is skipped: the loop goes on with the next entry, having
  only written its debug line; no destination directory is made for it and the function
  is not called on it.
\<close>

theorem ignored_directory_skipped:
  "item \<in> ignoredirs \<and> os_path_isdir (files w) (folder @ os_sep @ item) \<longrightarrow>
     render_items n cfg eng folder dest (item # items) w
       = render_items n cfg eng folder dest items (note_folder cfg item w)"
  by (auto simp: ignoredirs_def is_j2n_def j2n_suffix_def Let_def)

theorem ignored_directory_skipped_witness:
  "''.git'' \<in> ignoredirs
   \<and> os_path_isdir (files (world_with proj_dst_fs)) ''/src/.git''
   \<and> render_items 1 posix_config literal_engine ''/src'' ''/dst'' [''.git'', ''sub'']
         (world_with proj_dst_fs)
       = render_items 1 posix_config literal_engine ''/src'' ''/dst'' [''sub'']
           (world_with proj_dst_fs)"
proof -
  have h: "''.git'' \<in> ignoredirs
      \<and> os_path_isdir (files (world_with proj_dst_fs)) (''/src'' @ os_sep @ ''.git'')"
    by code_simp
  have n: "note_folder posix_config ''.git'' (world_with proj_dst_fs) = world_with proj_dst_fs"
    by code_simp
  from ignored_directory_skipped[of "''.git''" "world_with proj_dst_fs" "''/src''" 1
      posix_config literal_engine "''/dst''" "[''sub'']"] h n
  show ?thesis by (simp add: os_sep_def)
qed

theorem ignored_name_created_counterexample:
  "''.git'' \<in> ignoredirs
   \<and> \<not> os_path_exists vcs_fs ''/dst/.git''
   \<and> os_path_isdir (final_files (render_folder_template 3 posix_config literal_engine ''/src''
         ''/dst'' (world_with vcs_fs))) ''/dst/.git''
   \<and> os_path_isdir (final_files (render_folder_template 3 python2_config literal_engine ''/src''
         ''/dst'' (world_with vcs_fs))) ''/dst/.git''
   \<and> map_of (final_files (render_folder_template 3 python2_config literal_engine ''/src''
         ''/dst'' (world_with vcs_fs))) ''/dst/.git/readme''
       = Some (File (''text'' @ NL) True)"
  by code_simp




text \<open>
  C5. On a call of \<^verbatim>\<open>render_folder_template\<close>: a destination that does not exist is
  created with \<^verbatim>\<open>os.mkdir\<close>; when that fails the run ends, on Python 3 with
  \<^verbatim>\<open>exit(1)\<close> after a message that names the destination (on Python 2 with the
  \<^verbatim>\<open>OSError\<close> of that path); a destination that exists (or was just made) and is not
  writable makes the run exit after a message that names it; otherwise the loop over the
  listing of the source directory starts.
\<close>

theorem destination_handling:
  "(\<not> os_path_exists (files w) dest \<and> os_mkdir (files w) dest = None \<longrightarrow>
      render_folder_template (Suc n) cfg eng folder dest w
        = (if python3 cfg
           then Some (Exit (stderr_write (create_failure_message cfg dest)
                              (enter_folder cfg folder dest w)))
           else Some (Raised (OSError dest) (enter_folder cfg folder dest w))))
   \<and> (\<forall>fs. \<not> os_path_exists (files w) dest \<and> os_mkdir (files w) dest = Some fs \<longrightarrow>
        os_path_isdir fs dest \<and>
        render_folder_template (Suc n) cfg eng folder dest w
          = (if os_access_W_OK fs dest
             then iterate n cfg eng folder dest (enter_folder cfg folder dest w\<lparr>files := fs\<rparr>)
             else Some (Exit (stderr_write (not_writable_message cfg dest)
                               (enter_folder cfg folder dest w\<lparr>files := fs\<rparr>)))))
   \<and> (os_path_exists (files w) dest \<and> \<not> os_access_W_OK (files w) dest \<longrightarrow>
        render_folder_template (Suc n) cfg eng folder dest w
          = Some (Exit (stderr_write (not_writable_message cfg dest)
                         (enter_folder cfg folder dest w))))
   \<and> (os_path_exists (files w) dest \<and> os_access_W_OK (files w) dest \<longrightarrow>
        render_folder_template (Suc n) cfg eng folder dest w
          = iterate n cfg eng folder dest (enter_folder cfg folder dest w))"
  by (auto simp: prepare_dest_def check_writable_def iterate_def os_mkdir_isdir
        create_failure_message_def not_writable_message_def)

theorem destination_handling_witness:
  "render_folder_template 1 posix_config literal_engine ''/src'' ''/missing/dst''
       (world_with bad_fs)
     = Some (Exit (stderr_write (create_failure_message posix_config ''/missing/dst'')
                     (world_with bad_fs)))
   \<and> os_path_isdir (bad_fs @ [(''/new'', Dir True)]) ''/new''
   \<and> render_folder_template 1 posix_config literal_engine ''/src'' ''/new'' (world_with bad_fs)
     = iterate 0 posix_config literal_engine ''/src'' ''/new''
         (world_with (bad_fs @ [(''/new'', Dir True)]))
   \<and> render_folder_template 1 posix_config literal_engine ''/src'' ''/ro'' (world_with bad_fs)
     = Some (Exit (stderr_write (not_writable_message posix_config ''/ro'')
                     (world_with bad_fs)))
   \<and> render_folder_template 1 posix_config literal_engine ''/src'' ''/dst'' (world_with bad_fs)
     = iterate 0 posix_config literal_engine ''/src'' ''/dst'' (world_with bad_fs)"
proof -
  let ?w = "world_with bad_fs"
  have e: "enter_folder posix_config ''/src'' d ?w = ?w" for d
    by (simp add: enter_folder_def DEBUG_def posix_config_def)
  have a1: "\<not> os_path_exists (files ?w) ''/missing/dst''
      \<and> os_mkdir (files ?w) ''/missing/dst'' = None"
    by code_simp
  have a2: "\<not> os_path_exists (files ?w) ''/new''
      \<and> os_mkdir (files ?w) ''/new'' = Some (bad_fs @ [(''/new'', Dir True)])"
    by code_simp
  have a2': "os_access_W_OK (bad_fs @ [(''/new'', Dir True)]) ''/new''"
    by code_simp
  have a3: "os_path_exists (files ?w) ''/ro'' \<and> \<not> os_access_W_OK (files ?w) ''/ro''"
    by code_simp
  have a4: "os_path_exists (files ?w) ''/dst'' \<and> os_access_W_OK (files ?w) ''/dst''"
    by code_simp
  have u: "?w\<lparr>files := bad_fs @ [(''/new'', Dir True)]\<rparr>
             = world_with (bad_fs @ [(''/new'', Dir True)])"
    by code_simp
  note t = destination_handling[where n = 0 and cfg = posix_config and eng = literal_engine
      and folder = "''/src''" and w = ?w]
  have p: "python3 posix_config" by (simp add: posix_config_def)
  from t[of "''/missing/dst''"] a1
  have c1: "render_folder_template 1 posix_config literal_engine ''/src'' ''/missing/dst'' ?w
     = Some (Exit (stderr_write (create_failure_message posix_config ''/missing/dst'') ?w))"
    by (simp add: e p)
  from t[of "''/new''"] a2 a2'
  have c2: "os_path_isdir (bad_fs @ [(''/new'', Dir True)]) ''/new''
     \<and> render_folder_template 1 posix_config literal_engine ''/src'' ''/new'' ?w
       = iterate 0 posix_config literal_engine ''/src'' ''/new''
           (world_with (bad_fs @ [(''/new'', Dir True)]))"
    by (simp add: e u)
  from t[of "''/ro''"] a3
  have c3: "render_folder_template 1 posix_config literal_engine ''/src'' ''/ro'' ?w
     = Some (Exit (stderr_write (not_writable_message posix_config ''/ro'') ?w))"
    by (simp add: e)
  from t[of "''/dst''"] a4
  have c4: "render_folder_template 1 posix_config literal_engine ''/src'' ''/dst'' ?w
     = iterate 0 posix_config literal_engine ''/src'' ''/dst'' ?w"
    by (simp add: e)
  from c1 c2 c3 c4 show ?thesis by simp
qed

text \<open>
  C6. The claim says that a naming template is rendered with the configuration of a
  content template. \<^verbatim>\<open>render_file_name\<close> builds its own environment: with the options
  \<^verbatim>\<open>-P /inc -t 0\<close> the search path of a naming template is its own directory alone and
  its blocks are trimmed, while a content template of the same run searches
  \<^verbatim>\<open>/inc\<close> too and is not trimmed. Only the line ending is shared.
\<close>

theorem naming_render_ignores_search_path_and_trim:
  "name_environment options_config ''/src/item.txt.j2n''
     = \<lparr>searchpath = [''/src''], encoding = ''utf-8'', trim_blocks = True,
        newline_sequence = NL\<rparr>
   \<and> file_environment options_config ''/src/item.txt.j2n''
     = \<lparr>searchpath = [''/src'', ''/inc''], encoding = ''utf-8'', trim_blocks = False,
        newline_sequence = NL\<rparr>
   \<and> returned_value (render_file_name options_config probe_engine ''/src/item.txt.j2n''
         (world_with proj_fs)) = Some ''/src trim''
   \<and> stdout (world_of (render_file_template options_config probe_engine ''/src/item.txt.j2n''
         Stdout (world_with proj_fs))) = [''/src:/inc keep'' @ NL]"
  by code_simp

text \<open>
  C7. An entry whose name ends with \<^verbatim>\<open>.j2n\<close>, in any letter case, is skipped by the
  loop: the run is the same as on the listing without it, wherever it stands in the listing.
\<close>

theorem naming_directives_skipped:
  "(\<exists>s\<in>j2n_names. suffix s item) \<longrightarrow>
     render_items n cfg eng folder dest (item # items) w
       = render_items n cfg eng folder dest items w
     \<and> render_items n cfg eng folder dest (pre @ item # items) w
       = render_items n cfg eng folder dest (pre @ items) w"
proof
  assume "\<exists>s\<in>j2n_names. suffix s item"
  then have j: "is_j2n item" by (auto intro: suffix_is_j2n)
  have "render_items n cfg eng folder dest (pre @ item # items) w
          = render_items n cfg eng folder dest (filter (\<lambda>i. \<not> is_j2n i) (pre @ item # items)) w"
    by (simp only: render_items_filter)
  also have "\<dots> = render_items n cfg eng folder dest (filter (\<lambda>i. \<not> is_j2n i) (pre @ items)) w"
    using j by simp
  also have "\<dots> = render_items n cfg eng folder dest (pre @ items) w"
    by (simp only: render_items_filter)
  finally show "render_items n cfg eng folder dest (item # items) w
       = render_items n cfg eng folder dest items w
     \<and> render_items n cfg eng folder dest (pre @ item # items) w
       = render_items n cfg eng folder dest (pre @ items) w"
    using j by simp
qed

theorem naming_directives_skipped_witness:
  "(\<exists>s\<in>j2n_names. suffix s ''item.txt.J2N'')
   \<and> render_items 1 posix_config literal_engine ''/src'' ''/dst'' [''item.txt.J2N'', ''sub'']
         (world_with proj_dst_fs)
       = render_items 1 posix_config literal_engine ''/src'' ''/dst'' [''sub'']
           (world_with proj_dst_fs)
   \<and> render_items 1 posix_config literal_engine ''/src'' ''/dst''
         [''.git'', ''item.txt.J2N'', ''sub''] (world_with proj_dst_fs)
       = render_items 1 posix_config literal_engine ''/src'' ''/dst'' [''.git'', ''sub'']
           (world_with proj_dst_fs)"
proof -
  have "suffix ''.J2N'' ''item.txt.J2N''"
    by (simp add: suffix_def)
  then have h: "\<exists>s\<in>j2n_names. suffix s ''item.txt.J2N''"
    by (auto simp: j2n_names_def)
  from naming_directives_skipped[of "''item.txt.J2N''" 1 posix_config literal_engine "''/src''"
      "''/dst''" "[''sub'']" "world_with proj_dst_fs" "[''.git'']"] h
  show ?thesis by simp
qed

text \<open>
  C8. When the engine reports a template syntax error, \<^verbatim>\<open>render_file_template\<close> and
  \<^verbatim>\<open>render_file_name\<close> exit, and the error stream has received exactly two more
  writes: the command line message, then the \<open>file(line): message\<close> diagnostic, both with
  the file name, the line number and the message of the error.
\<close>

theorem syntax_error_reported_twice:
  "(eng (file_environment cfg file) (j2 (file_world cfg file out w))
        (globals (file_world cfg file out w)) (files w) (os_path_basename file)
      = TemplateSyntaxError filename lineno message
    \<longrightarrow> (\<exists>w'. render_file_template cfg eng file out w = Exit w'
          \<and> stderr w' = stderr (file_world cfg file out w)
               @ [invocation_message filename lineno message (os_linesep cfg),
                  location_message filename lineno message (os_linesep cfg)]
          \<and> files w' = files w))
   \<and> (eng (name_environment cfg file) (j2 w) (globals (name_world cfg file w)) (files w)
          (os_path_basename file)
      = TemplateSyntaxError filename lineno message
    \<longrightarrow> (\<exists>w'. render_file_name cfg eng file w = Exit w'
          \<and> stderr w' = stderr (name_world cfg file w)
               @ [invocation_message filename lineno message NL,
                  location_message filename lineno message NL]
          \<and> files w' = files w))"
  by (simp add: render_file_template_def render_file_name_def Let_def
        invocation_message_def location_message_def)

theorem syntax_error_reported_twice_witness:
  "(\<exists>w'. render_file_template posix_config literal_engine ''/src/bad'' Stdout
            (world_with bad_fs) = Exit w'
       \<and> stderr w'
           = [invocation_message ''/src/bad'' 1 ''Unexpected end of template'' NL,
              location_message ''/src/bad'' 1 ''Unexpected end of template'' NL]
       \<and> files w' = bad_fs)
   \<and> (\<exists>w'. render_file_name posix_config literal_engine ''/src/broken.j2n''
            (world_with bad_fs) = Exit w'
       \<and> stderr w'
           = [invocation_message ''/src/broken.j2n'' 1 ''Unexpected end of template'' NL,
              location_message ''/src/broken.j2n'' 1 ''Unexpected end of template'' NL]
       \<and> files w' = bad_fs)"
proof -
  let ?w = "world_with bad_fs"
  have h1: "literal_engine (file_environment posix_config ''/src/bad'')
              (j2 (file_world posix_config ''/src/bad'' Stdout ?w))
              (globals (file_world posix_config ''/src/bad'' Stdout ?w)) (files ?w)
              (os_path_basename ''/src/bad'')
            = TemplateSyntaxError ''/src/bad'' 1 ''Unexpected end of template''"
    by code_simp
  have h2: "literal_engine (name_environment posix_config ''/src/broken.j2n'') (j2 ?w)
              (globals (name_world posix_config ''/src/broken.j2n'' ?w)) (files ?w)
              (os_path_basename ''/src/broken.j2n'')
            = TemplateSyntaxError ''/src/broken.j2n'' 1 ''Unexpected end of template''"
    by code_simp
  have e1: "stderr (file_world posix_config ''/src/bad'' Stdout ?w) = []"
    by code_simp
  have e2: "stderr (name_world posix_config ''/src/broken.j2n'' ?w) = []"
    by code_simp
  have l: "os_linesep posix_config = NL" "files ?w = bad_fs"
    by (simp_all add: posix_config_def world_with_def)
  note t = syntax_error_reported_twice[of literal_engine posix_config _ Stdout ?w _ 1
      "''Unexpected end of template''"]
  from t[of "''/src/bad''" "''/src/bad''", THEN conjunct1] h1
  have c1: "\<exists>w'. render_file_template posix_config literal_engine ''/src/bad'' Stdout ?w = Exit w'
       \<and> stderr w'
           = [invocation_message ''/src/bad'' 1 ''Unexpected end of template'' NL,
              location_message ''/src/bad'' 1 ''Unexpected end of template'' NL]
       \<and> files w' = bad_fs"
    by (simp add: e1 l)
  from t[of "''/src/broken.j2n''" "''/src/broken.j2n''", THEN conjunct2] h2
  have c2: "\<exists>w'. render_file_name posix_config literal_engine ''/src/broken.j2n'' ?w = Exit w'
       \<and> stderr w'
           = [invocation_message ''/src/broken.j2n'' 1 ''Unexpected end of template'' NL,
              location_message ''/src/broken.j2n'' 1 ''Unexpected end of template'' NL]
       \<and> files w' = bad_fs"
    by (simp add: e2 l)
  from c1 c2 show ?thesis by simp
qed



text \<open>
  C10. For a file entry the destination is opened, and so exists and is empty, before
  \<^verbatim>\<open>render_file_template\<close> is called; when the engine then fails, the run exits and
  the destination of that entry is still there, empty.
\<close>

theorem failing_entry_leaves_empty_destination:
  assumes "\<not> is_j2n item"
    and "\<not> os_path_isdir (files w) (folder @ os_sep @ item)"
    and "item_dest cfg eng folder dest item (note_file cfg item w) = Returned fdest w1"
    and "open_wb (files w1) fdest = Some fs"
    and "\<forall>text. eng (file_environment cfg (folder @ os_sep @ item))
            (j2 (file_world cfg (folder @ os_sep @ item) (OpenFile fdest) (w1\<lparr>files := fs\<rparr>)))
            (globals (file_world cfg (folder @ os_sep @ item) (OpenFile fdest) (w1\<lparr>files := fs\<rparr>)))
            fs (os_path_basename (folder @ os_sep @ item)) \<noteq> Rendered text"
  shows "map_of fs fdest = Some (File [] True)
     \<and> render_file_item cfg eng folder dest item w
         = render_file_template cfg eng (folder @ os_sep @ item) (OpenFile fdest)
             (w1\<lparr>files := fs\<rparr>)
     \<and> (\<exists>w'. render_items n cfg eng folder dest (item # items) w = Some (Exit w')
           \<and> map_of (files w') fdest = Some (File [] True))"
proof -
  have e: "map_of fs fdest = Some (File [] True)"
    using assms(4) by (rule open_wb_empty)
  have r: "render_file_item cfg eng folder dest item w
         = render_file_template cfg eng (folder @ os_sep @ item) (OpenFile fdest)
             (w1\<lparr>files := fs\<rparr>)"
    using assms(3,4) by (rule render_file_item_open)
  obtain w' where w': "render_file_template cfg eng (folder @ os_sep @ item) (OpenFile fdest)
             (w1\<lparr>files := fs\<rparr>) = Exit w'" "files w' = fs"
    using render_file_template_failure[of eng cfg "folder @ os_sep @ item" "OpenFile fdest"
        "w1\<lparr>files := fs\<rparr>"] assms(5) by auto
  have "render_items n cfg eng folder dest (item # items) w = Some (Exit w')"
    using assms(1,2) r w'(1) by simp
  with e r w'(2) show ?thesis by simp
qed

theorem failing_entry_leaves_empty_destination_witness:
  "map_of (bad_fs @ [(''/dst/bad'', File [] True)]) ''/dst/bad'' = Some (File [] True)
   \<and> (\<exists>w'. render_items 0 posix_config literal_engine ''/src'' ''/dst'' [''bad'', ''broken.j2n'']
              (world_with bad_fs) = Some (Exit w')
         \<and> map_of (files w') ''/dst/bad'' = Some (File [] True))"
proof -
  let ?w = "world_with bad_fs"
  let ?fs = "bad_fs @ [(''/dst/bad'', File [] True)]"
  let ?wt = "file_world posix_config (''/src'' @ os_sep @ ''bad'') (OpenFile ''/dst/bad'')
               (?w\<lparr>files := ?fs\<rparr>)"
  have h1: "\<not> is_j2n ''bad''" by code_simp
  have h2: "\<not> os_path_isdir (files ?w) (''/src'' @ os_sep @ ''bad'')" by code_simp
  have h3: "item_dest posix_config literal_engine ''/src'' ''/dst'' ''bad''
              (note_file posix_config ''bad'' ?w) = Returned ''/dst/bad'' ?w"
    by code_simp
  have h4: "open_wb (files ?w) ''/dst/bad'' = Some ?fs" by code_simp
  have "literal_engine (file_environment posix_config (''/src'' @ os_sep @ ''bad''))
          (j2 ?wt) (globals ?wt) ?fs (os_path_basename (''/src'' @ os_sep @ ''bad''))
        = TemplateSyntaxError ''/src/bad'' 1 ''Unexpected end of template''"
    by code_simp
  then have h5: "\<forall>text. literal_engine (file_environment posix_config (''/src'' @ os_sep @ ''bad''))
          (j2 ?wt) (globals ?wt) ?fs (os_path_basename (''/src'' @ os_sep @ ''bad''))
        \<noteq> Rendered text"
    by simp
  have m: "map_of (bad_fs @ [(''/dst/bad'', File [] True)]) ''/dst/bad'' = Some (File [] True)"
    by code_simp
  from failing_entry_leaves_empty_destination[OF h1 h2 h3 h4 h5, of 0 "[''broken.j2n'']"] m
  show ?thesis by simp
qed

end
